theory Spec2Isabelle
  imports Main "HOL-Library.Word"
begin

unbundle bit_operations_syntax

section \<open>Board support for the OMAP5430 EVM: embedding of board-omap5evm.c\<close>

text \<open>
  The file arch/arm/mach-omap2/board-omap5evm.c consists of static descriptor tables and of
  init functions that call kernel services in a fixed order. The embedding has three parts:
  \<^item> the descriptor tables, as records and lists;
  \<^item> the statics that the init code assigns to, gathered in the record \<open>board\<close>, which the
    init functions take and return;
  \<^item> the calls into the kernel and the log messages, appended to the field \<open>trace\<close> of
    the board in program order.
  What the kernel answers is not decided by this file: the results of the calls whose value
  the code receives are fields of the record \<open>kernel\<close>, the constants and macros that the
  file takes from kernel headers are fields of the record \<open>hdr\<close>, and the preprocessor
  switches are fields of the record \<open>config\<close>. Every function is stated for all
  such answers, constants and switches. Each call that returns a value is made at most once
  with given arguments on every path through the init code, so an answer that depends on the
  arguments alone loses no generality.
\<close>

subsection \<open>Values, pointers and the trace\<close>

type_synonym ptr = "32 word"

definition NULL :: ptr where
  "NULL = 0"

text \<open>
  An argument of a call or a pointer member of a table: a C integer, a word-sized flag value,
  an object pointer obtained from the kernel, a string literal, the address of a named static
  object or function (\<open>Ref\<close>), or a null pointer written as such in the source (\<open>Null\<close>).
\<close>

datatype arg = I int | W "32 word" | P ptr | S string | Ref string | Null

datatype loglevel = KERN_ERR | KERN_INFO

datatype event = Call string "arg list" | Log loglevel string "arg list"

definition ARRAY_SIZE :: "'a list \<Rightarrow> int" where
  "ARRAY_SIZE xs = int (length xs)"

subsection \<open>Constants and macros of kernel headers\<close>

text \<open>
  The numeric values of these constants, and the bodies of the macros \<open>OMAP_GPIO_IRQ\<close> and
  \<open>IS_ERR\<close>, are fixed by kernel headers. \<open>lpddr2_elpida_4G_S4_timings_size\<close> stands for
  \<open>ARRAY_SIZE(lpddr2_elpida_4G_S4_timings)\<close>, a table defined in another file.
\<close>

record hdr =
  EINVAL :: int
  MMC_CAP_4_BIT_DATA :: "32 word"
  MMC_CAP_8_BIT_DATA :: "32 word"
  MMC_CAP_1_8V_DDR :: "32 word"
  MMC_CAP_UHS_SDR12 :: "32 word"
  MMC_CAP_UHS_SDR25 :: "32 word"
  MMC_CAP_UHS_DDR50 :: "32 word"
  MMC_CAP_POWER_OFF_CARD :: "32 word"
  MMC_VDD_29_30 :: "32 word"
  MMC_VDD_165_195 :: "32 word"
  REGULATOR_CHANGE_VOLTAGE :: "32 word"
  REGULATOR_CHANGE_MODE :: "32 word"
  REGULATOR_CHANGE_STATUS :: "32 word"
  REGULATOR_MODE_NORMAL :: "32 word"
  REGULATOR_MODE_STANDBY :: "32 word"
  TWL6040_CODEC_IRQ_BASE :: int
  OMAP44XX_IRQ_SYS_1N :: int
  OMAP44XX_IRQ_SYS_2N :: int
  OMAP_MAX_GPIO_LINES :: int
  WL12XX_REFCLOCK_26 :: int
  WL12XX_TCXOCLOCK_26 :: int
  DDC_ADDR :: int
  GPIOF_IN :: "32 word"
  GPIOF_DIR_IN :: "32 word"
  GPIOF_DIR_OUT :: "32 word"
  GPIOF_OUT_INIT_HIGH :: "32 word"
  OMAP_PIN_INPUT :: "32 word"
  OMAP_PIN_INPUT_PULLUP :: "32 word"
  OMAP_PIN_OUTPUT :: "32 word"
  OMAP_PIN_OFF_WAKEUPENABLE :: "32 word"
  OMAP_MUX_MODE0 :: "32 word"
  OMAP_MUX_MODE6 :: "32 word"
  OMAP_PACKAGE_CBL :: "32 word"
  OMAP_GPIO_IRQ :: "int \<Rightarrow> int"
  IS_ERR :: "ptr \<Rightarrow> bool"
  lpddr2_elpida_4G_S4_timings_size :: int

text \<open>The preprocessor switches that the file tests.\<close>

record config =
  CONFIG_OMAP5_SEVM_PALMAS :: bool
  CONFIG_WL12XX_PLATFORM_DATA :: bool
  CONFIG_OMAP_MUX :: bool

subsection \<open>Macros of the file\<close>

definition OMAP5_TOUCH_IRQ_1 :: int where
  "OMAP5_TOUCH_IRQ_1 = 179"

definition OMAP5_TOUCH_RESET :: int where
  "OMAP5_TOUCH_RESET = 230"

definition GPIO_WIFI_PMENA :: int where
  "GPIO_WIFI_PMENA = 140"

definition HDMI_OE_GPIO :: int where
  "HDMI_OE_GPIO = 256"

definition HDMI_HPD_EN_GPIO :: int where
  "HDMI_HPD_EN_GPIO = 257"

definition HDMI_GPIO_HPD :: int where
  "HDMI_GPIO_HPD = 193"

definition GPIO_ETH_NRESET_SEVM :: int where
  "GPIO_ETH_NRESET_SEVM = 172"

definition GPIO_ETH_NRESET_UEVM :: int where
  "GPIO_ETH_NRESET_UEVM = 15"

definition GPIO_HUB_NRESET_SEVM :: int where
  "GPIO_HUB_NRESET_SEVM = 173"

definition GPIO_HUB_NRESET_UEVM :: int where
  "GPIO_HUB_NRESET_UEVM = 80"

subsection \<open>LEDs\<close>

record gpio_led =
  led_name :: string
  default_trigger :: string
  led_gpio :: int

definition gpio_leds :: "gpio_led list" where
  "gpio_leds =
    [\<lparr>led_name = ''red'', default_trigger = ''heartbeat'', led_gpio = 273\<rparr>,
     \<lparr>led_name = ''usr1'', default_trigger = ''default-off'', led_gpio = 258\<rparr>,
     \<lparr>led_name = ''usr2'', default_trigger = ''default-off'', led_gpio = 259\<rparr>,
     \<lparr>led_name = ''usr3'', default_trigger = ''default-off'', led_gpio = 260\<rparr>,
     \<lparr>led_name = ''usr4'', default_trigger = ''default-off'', led_gpio = 261\<rparr>,
     \<lparr>led_name = ''usr5'', default_trigger = ''default-off'', led_gpio = 262\<rparr>]"

record gpio_led_platform_data =
  leds :: "gpio_led list"
  num_leds :: int

definition gpio_led_info :: gpio_led_platform_data where
  "gpio_led_info = \<lparr>leds = gpio_leds, num_leds = ARRAY_SIZE gpio_leds\<rparr>"

subsection \<open>Keypads\<close>

text \<open>
  A keymap entry is written \<open>KEY(row, col, code)\<close> in the source. The macro packs the three
  into one word and the key codes are numbers of the input header; an entry keeps the three
  arguments as written, the key code by its name.
\<close>

datatype keymap_entry = KEY nat nat string

definition evm5430_keymap :: "keymap_entry list" where
  "evm5430_keymap =
    [KEY 0 0 ''KEY_RESERVED'', KEY 0 1 ''KEY_RESERVED'', KEY 0 2 ''KEY_RESERVED'', KEY 0 3 ''KEY_RESERVED'',
     KEY 0 4 ''KEY_RESERVED'', KEY 0 5 ''KEY_RESERVED'', KEY 0 6 ''KEY_RESERVED'', KEY 0 7 ''KEY_RESERVED'',
     KEY 1 0 ''KEY_RESERVED'', KEY 1 1 ''KEY_RESERVED'', KEY 1 2 ''KEY_RESERVED'', KEY 1 3 ''KEY_RESERVED'',
     KEY 1 4 ''KEY_RESERVED'', KEY 1 5 ''KEY_RESERVED'', KEY 1 6 ''KEY_RESERVED'', KEY 1 7 ''KEY_RESERVED'',
     KEY 2 0 ''KEY_RESERVED'', KEY 2 1 ''KEY_RESERVED'', KEY 2 2 ''KEY_VOLUMEUP'', KEY 2 3 ''KEY_VOLUMEDOWN'',
     KEY 2 4 ''KEY_SEND'', KEY 2 5 ''KEY_HOME'', KEY 2 6 ''KEY_END'', KEY 2 7 ''KEY_SEARCH'',
     KEY 3 0 ''KEY_RESERVED'', KEY 3 1 ''KEY_RESERVED'', KEY 3 2 ''KEY_RESERVED'', KEY 3 3 ''KEY_RESERVED'',
     KEY 3 4 ''KEY_RESERVED'', KEY 3 5 ''KEY_RESERVED'', KEY 3 6 ''KEY_RESERVED'', KEY 3 7 ''KEY_RESERVED'',
     KEY 4 0 ''KEY_RESERVED'', KEY 4 1 ''KEY_RESERVED'', KEY 4 2 ''KEY_RESERVED'', KEY 4 3 ''KEY_RESERVED'',
     KEY 4 4 ''KEY_RESERVED'', KEY 4 5 ''KEY_RESERVED'', KEY 4 6 ''KEY_RESERVED'', KEY 4 7 ''KEY_RESERVED'',
     KEY 5 0 ''KEY_RESERVED'', KEY 5 1 ''KEY_RESERVED'', KEY 5 2 ''KEY_RESERVED'', KEY 5 3 ''KEY_RESERVED'',
     KEY 5 4 ''KEY_RESERVED'', KEY 5 5 ''KEY_RESERVED'', KEY 5 6 ''KEY_RESERVED'', KEY 5 7 ''KEY_RESERVED'',
     KEY 6 0 ''KEY_RESERVED'', KEY 6 1 ''KEY_RESERVED'', KEY 6 2 ''KEY_RESERVED'', KEY 6 3 ''KEY_RESERVED'',
     KEY 6 4 ''KEY_RESERVED'', KEY 6 5 ''KEY_RESERVED'', KEY 6 6 ''KEY_RESERVED'', KEY 6 7 ''KEY_RESERVED'',
     KEY 7 0 ''KEY_RESERVED'', KEY 7 1 ''KEY_RESERVED'', KEY 7 2 ''KEY_RESERVED'', KEY 7 3 ''KEY_RESERVED'',
     KEY 7 4 ''KEY_RESERVED'', KEY 7 5 ''KEY_RESERVED'', KEY 7 6 ''KEY_RESERVED'', KEY 7 7 ''KEY_RESERVED'']"

definition board_keymap :: "keymap_entry list" where
  "board_keymap =
    [KEY 0 0 ''KEY_RESERVED'', KEY 0 1 ''KEY_RESERVED'', KEY 0 2 ''KEY_F7'', KEY 0 3 ''KEY_ESC'',
     KEY 0 4 ''KEY_F4'', KEY 0 5 ''KEY_G'', KEY 0 6 ''KEY_RESERVED'', KEY 0 7 ''KEY_H'',
     KEY 0 8 ''KEY_RESERVED'', KEY 0 9 ''KEY_CYCLEWINDOWS'', KEY 0 10 ''KEY_RESERVED'', KEY 0 11 ''KEY_RESERVED'',
     KEY 0 12 ''KEY_BACKSPACE'', KEY 0 13 ''KEY_F11'', KEY 0 14 ''KEY_FORWARD'', KEY 0 15 ''KEY_INSERT'',
     KEY 1 0 ''KEY_RIGHTSHIFT'', KEY 1 1 ''KEY_RESERVED'', KEY 1 2 ''KEY_W'', KEY 1 3 ''KEY_Q'',
     KEY 1 4 ''KEY_E'', KEY 1 5 ''KEY_R'', KEY 1 6 ''KEY_RESERVED'', KEY 1 7 ''KEY_U'',
     KEY 1 8 ''KEY_I'', KEY 1 9 ''KEY_RESERVED'', KEY 1 10 ''KEY_RESERVED'', KEY 1 11 ''KEY_RESERVED'',
     KEY 1 12 ''KEY_UP'', KEY 1 13 ''KEY_O'', KEY 1 14 ''KEY_P'', KEY 1 15 ''KEY_LEFT'',
     KEY 2 0 ''KEY_RESERVED'', KEY 2 1 ''KEY_RESERVED'', KEY 2 2 ''KEY_2'', KEY 2 3 ''KEY_1'',
     KEY 2 4 ''KEY_3'', KEY 2 5 ''KEY_4'', KEY 2 6 ''KEY_RESERVED'', KEY 2 7 ''KEY_7'',
     KEY 2 8 ''KEY_8'', KEY 2 9 ''KEY_RESERVED'', KEY 2 10 ''KEY_RESERVED'', KEY 2 11 ''KEY_RIGHTALT'',
     KEY 2 12 ''KEY_DOWN'', KEY 2 13 ''KEY_9'', KEY 2 14 ''KEY_0'', KEY 2 15 ''KEY_RIGHT'',
     KEY 3 0 ''KEY_RESERVED'', KEY 3 1 ''KEY_RIGHTCTRL'', KEY 3 2 ''KEY_S'', KEY 3 3 ''KEY_A'',
     KEY 3 4 ''KEY_D'', KEY 3 5 ''KEY_F'', KEY 3 6 ''KEY_RESERVED'', KEY 3 7 ''KEY_J'',
     KEY 3 8 ''KEY_K'', KEY 3 9 ''KEY_RESERVED'', KEY 3 10 ''KEY_RESERVED'', KEY 3 11 ''KEY_RESERVED'',
     KEY 3 12 ''KEY_ENTER'', KEY 3 13 ''KEY_L'', KEY 3 14 ''KEY_SEMICOLON'', KEY 3 15 ''KEY_RESERVED'',
     KEY 4 0 ''KEY_LEFTSHIFT'', KEY 4 1 ''KEY_RESERVED'', KEY 4 2 ''KEY_X'', KEY 4 3 ''KEY_Z'',
     KEY 4 4 ''KEY_C'', KEY 4 5 ''KEY_V'', KEY 4 6 ''KEY_RESERVED'', KEY 4 7 ''KEY_M'',
     KEY 4 8 ''KEY_COMMA'', KEY 4 9 ''KEY_RESERVED'', KEY 4 10 ''KEY_RESERVED'', KEY 4 11 ''KEY_RESERVED'',
     KEY 4 12 ''KEY_SPACE'', KEY 4 13 ''KEY_DOT'', KEY 4 14 ''KEY_SLASH'', KEY 4 15 ''KEY_END'',
     KEY 5 0 ''KEY_RESERVED'', KEY 5 1 ''KEY_LEFTCTRL'', KEY 5 2 ''KEY_F6'', KEY 5 3 ''KEY_TAB'',
     KEY 5 4 ''KEY_F3'', KEY 5 5 ''KEY_T'', KEY 5 6 ''KEY_RESERVED'', KEY 5 7 ''KEY_Y'',
     KEY 5 8 ''KEY_LEFTBRACE'', KEY 5 9 ''KEY_RESERVED'', KEY 5 10 ''KEY_RESERVED'', KEY 5 11 ''KEY_RESERVED'',
     KEY 5 12 ''KEY_RESERVED'', KEY 5 13 ''KEY_F10'', KEY 5 14 ''KEY_RIGHTBRACE'', KEY 5 15 ''KEY_HOME'',
     KEY 6 0 ''KEY_RESERVED'', KEY 6 1 ''KEY_RESERVED'', KEY 6 2 ''KEY_F5'', KEY 6 3 ''KEY_RESERVED'',
     KEY 6 4 ''KEY_F2'', KEY 6 5 ''KEY_5'', KEY 6 6 ''KEY_FN'', KEY 6 7 ''KEY_6'',
     KEY 6 8 ''KEY_RESERVED'', KEY 6 9 ''KEY_RESERVED'', KEY 6 10 ''KEY_MENU'', KEY 6 11 ''KEY_RESERVED'',
     KEY 6 12 ''KEY_BACKSLASH'', KEY 6 13 ''KEY_F9'', KEY 6 14 ''KEY_RESERVED'', KEY 6 15 ''KEY_RESERVED'',
     KEY 7 0 ''KEY_RESERVED'', KEY 7 1 ''KEY_RESERVED'', KEY 7 2 ''KEY_F8'', KEY 7 3 ''KEY_CAPSLOCK'',
     KEY 7 4 ''KEY_F1'', KEY 7 5 ''KEY_B'', KEY 7 6 ''KEY_RESERVED'', KEY 7 7 ''KEY_N'',
     KEY 7 8 ''KEY_RESERVED'', KEY 7 9 ''KEY_RESERVED'', KEY 7 10 ''KEY_RESERVED'', KEY 7 11 ''KEY_LEFTALT'',
     KEY 7 12 ''KEY_RESERVED'', KEY 7 13 ''KEY_F12'', KEY 7 14 ''KEY_RESERVED'', KEY 7 15 ''KEY_DELETE'']"

record matrix_keymap_data =
  keymap :: "keymap_entry list"
  keymap_size :: int

definition evm5430_keymap_data :: matrix_keymap_data where
  "evm5430_keymap_data =
     \<lparr>keymap = evm5430_keymap, keymap_size = ARRAY_SIZE evm5430_keymap\<rparr>"

record omap4_keypad_platform_data =
  kp4_keymap_data :: matrix_keymap_data
  kp4_rows :: int
  kp4_cols :: int

definition evm5430_keypad_data :: omap4_keypad_platform_data where
  "evm5430_keypad_data =
     \<lparr>kp4_keymap_data = evm5430_keymap_data, kp4_rows = 8, kp4_cols = 8\<rparr>"

definition board_map_data :: matrix_keymap_data where
  "board_map_data = \<lparr>keymap = board_keymap, keymap_size = ARRAY_SIZE board_keymap\<rparr>"

record smsc_keypad_data =
  keymap_data :: matrix_keymap_data
  rows :: int
  cols :: int
  rep :: int

definition omap5_kp_data :: smsc_keypad_data where
  "omap5_kp_data = \<lparr>keymap_data = board_map_data, rows = 8, cols = 16, rep = 1\<rparr>"

subsection \<open>Regulator constraints\<close>

text \<open>
  \<open>struct regulation_constraints\<close> and \<open>struct regulator_init_data\<close>, the members that the
  file initialises. A member that an initialiser does not name is zero, as C leaves it: the
  tables are written as updates of the all-zero structure.
\<close>

record regulation_constraints =
  min_uV :: int
  max_uV :: int
  valid_modes_mask :: "32 word"
  valid_ops_mask :: "32 word"
  always_on :: bool
  apply_uV :: bool

datatype regulator_consumer_supply = REGULATOR_SUPPLY string string

record regulator_init_data =
  constraints :: regulation_constraints
  num_consumer_supplies :: int
  consumer_supplies :: "regulator_consumer_supply list"

definition regulation_constraints_zero :: regulation_constraints where
  "regulation_constraints_zero =
     \<lparr>min_uV = 0, max_uV = 0, valid_modes_mask = 0, valid_ops_mask = 0,
      always_on = False, apply_uV = False\<rparr>"

definition regulator_init_data_zero :: regulator_init_data where
  "regulator_init_data_zero =
     \<lparr>constraints = regulation_constraints_zero, num_consumer_supplies = 0,
      consumer_supplies = []\<rparr>"

definition omap5_smps12 :: "hdr \<Rightarrow> regulator_init_data" where
  "omap5_smps12 H =
     regulator_init_data_zero
       \<lparr>constraints := regulation_constraints_zero
          \<lparr>min_uV := 600000,
           max_uV := 1310000,
           valid_modes_mask := REGULATOR_MODE_NORMAL H OR REGULATOR_MODE_STANDBY H,
           valid_ops_mask := REGULATOR_CHANGE_VOLTAGE H OR REGULATOR_CHANGE_MODE H OR REGULATOR_CHANGE_STATUS H\<rparr>\<rparr>"

definition omap5_smps45 :: "hdr \<Rightarrow> regulator_init_data" where
  "omap5_smps45 H =
     regulator_init_data_zero
       \<lparr>constraints := regulation_constraints_zero
          \<lparr>min_uV := 600000,
           max_uV := 1310000,
           valid_modes_mask := REGULATOR_MODE_NORMAL H OR REGULATOR_MODE_STANDBY H,
           valid_ops_mask := REGULATOR_CHANGE_VOLTAGE H OR REGULATOR_CHANGE_MODE H OR REGULATOR_CHANGE_STATUS H\<rparr>\<rparr>"

definition omap5_smps6 :: "hdr \<Rightarrow> regulator_init_data" where
  "omap5_smps6 H =
     regulator_init_data_zero
       \<lparr>constraints := regulation_constraints_zero
          \<lparr>min_uV := 1200000,
           max_uV := 1200000,
           valid_modes_mask := REGULATOR_MODE_NORMAL H OR REGULATOR_MODE_STANDBY H,
           valid_ops_mask := REGULATOR_CHANGE_MODE H OR REGULATOR_CHANGE_STATUS H\<rparr>\<rparr>"

definition omap5_smps7 :: "hdr \<Rightarrow> regulator_init_data" where
  "omap5_smps7 H =
     regulator_init_data_zero
       \<lparr>constraints := regulation_constraints_zero
          \<lparr>min_uV := 1800000,
           max_uV := 1800000,
           valid_modes_mask := REGULATOR_MODE_NORMAL H OR REGULATOR_MODE_STANDBY H,
           valid_ops_mask := REGULATOR_CHANGE_MODE H OR REGULATOR_CHANGE_STATUS H\<rparr>\<rparr>"

definition omap5_smps8 :: "hdr \<Rightarrow> regulator_init_data" where
  "omap5_smps8 H =
     regulator_init_data_zero
       \<lparr>constraints := regulation_constraints_zero
          \<lparr>min_uV := 600000,
           max_uV := 1310000,
           valid_modes_mask := REGULATOR_MODE_NORMAL H OR REGULATOR_MODE_STANDBY H,
           valid_ops_mask := REGULATOR_CHANGE_VOLTAGE H OR REGULATOR_CHANGE_MODE H OR REGULATOR_CHANGE_STATUS H\<rparr>\<rparr>"

definition omap5_adac_supply :: "regulator_consumer_supply list" where
  "omap5_adac_supply = [REGULATOR_SUPPLY ''vcc'' ''soc-audio'']"

definition omap5_smps9 :: "hdr \<Rightarrow> regulator_init_data" where
  "omap5_smps9 H =
     regulator_init_data_zero
       \<lparr>constraints := regulation_constraints_zero
          \<lparr>min_uV := 2100000,
           max_uV := 2100000,
           valid_modes_mask := REGULATOR_MODE_NORMAL H OR REGULATOR_MODE_STANDBY H,
           valid_ops_mask := REGULATOR_CHANGE_MODE H OR REGULATOR_CHANGE_STATUS H,
           always_on := True\<rparr>,
        num_consumer_supplies := ARRAY_SIZE omap5_adac_supply,
        consumer_supplies := omap5_adac_supply\<rparr>"

definition omap5_vbus_supply :: "regulator_consumer_supply list" where
  "omap5_vbus_supply = [REGULATOR_SUPPLY ''vbus'' ''1-0048'']"

definition omap5_smps10 :: "hdr \<Rightarrow> regulator_init_data" where
  "omap5_smps10 H =
     regulator_init_data_zero
       \<lparr>constraints := regulation_constraints_zero
          \<lparr>min_uV := 5000000,
           max_uV := 5000000,
           valid_modes_mask := REGULATOR_MODE_NORMAL H OR REGULATOR_MODE_STANDBY H,
           valid_ops_mask := REGULATOR_CHANGE_MODE H OR REGULATOR_CHANGE_STATUS H\<rparr>,
        num_consumer_supplies := ARRAY_SIZE omap5_vbus_supply,
        consumer_supplies := omap5_vbus_supply\<rparr>"

definition omap5_ldo1 :: "hdr \<Rightarrow> regulator_init_data" where
  "omap5_ldo1 H =
     regulator_init_data_zero
       \<lparr>constraints := regulation_constraints_zero
          \<lparr>min_uV := 2800000,
           max_uV := 2800000,
           valid_modes_mask := REGULATOR_MODE_NORMAL H OR REGULATOR_MODE_STANDBY H,
           valid_ops_mask := REGULATOR_CHANGE_MODE H OR REGULATOR_CHANGE_STATUS H,
           always_on := True\<rparr>\<rparr>"

definition omap5evm_lcd_panel_supply :: "regulator_consumer_supply list" where
  "omap5evm_lcd_panel_supply = [REGULATOR_SUPPLY ''panel_supply'' ''omapdss_dsi.0'']"

definition omap5_ldo2 :: "hdr \<Rightarrow> regulator_init_data" where
  "omap5_ldo2 H =
     regulator_init_data_zero
       \<lparr>constraints := regulation_constraints_zero
          \<lparr>min_uV := 2900000,
           max_uV := 2900000,
           apply_uV := True,
           valid_modes_mask := REGULATOR_MODE_NORMAL H OR REGULATOR_MODE_STANDBY H,
           valid_ops_mask := REGULATOR_CHANGE_MODE H OR REGULATOR_CHANGE_STATUS H,
           always_on := True\<rparr>,
        num_consumer_supplies := ARRAY_SIZE omap5evm_lcd_panel_supply,
        consumer_supplies := omap5evm_lcd_panel_supply\<rparr>"

definition omap5_ldo3 :: "hdr \<Rightarrow> regulator_init_data" where
  "omap5_ldo3 H =
     regulator_init_data_zero
       \<lparr>constraints := regulation_constraints_zero
          \<lparr>min_uV := 3000000,
           max_uV := 3000000,
           valid_modes_mask := REGULATOR_MODE_NORMAL H OR REGULATOR_MODE_STANDBY H,
           valid_ops_mask := REGULATOR_CHANGE_MODE H OR REGULATOR_CHANGE_STATUS H\<rparr>\<rparr>"

definition omap5_ldo4 :: "hdr \<Rightarrow> regulator_init_data" where
  "omap5_ldo4 H =
     regulator_init_data_zero
       \<lparr>constraints := regulation_constraints_zero
          \<lparr>min_uV := 2200000,
           max_uV := 2200000,
           valid_modes_mask := REGULATOR_MODE_NORMAL H OR REGULATOR_MODE_STANDBY H,
           valid_ops_mask := REGULATOR_CHANGE_MODE H OR REGULATOR_CHANGE_STATUS H\<rparr>\<rparr>"

definition omap5_ldo5 :: "hdr \<Rightarrow> regulator_init_data" where
  "omap5_ldo5 H =
     regulator_init_data_zero
       \<lparr>constraints := regulation_constraints_zero
          \<lparr>min_uV := 1800000,
           max_uV := 1800000,
           valid_modes_mask := REGULATOR_MODE_NORMAL H OR REGULATOR_MODE_STANDBY H,
           valid_ops_mask := REGULATOR_CHANGE_MODE H OR REGULATOR_CHANGE_STATUS H\<rparr>\<rparr>"

definition omap5_ldo6 :: "hdr \<Rightarrow> regulator_init_data" where
  "omap5_ldo6 H =
     regulator_init_data_zero
       \<lparr>constraints := regulation_constraints_zero
          \<lparr>min_uV := 1500000,
           max_uV := 1500000,
           valid_modes_mask := REGULATOR_MODE_NORMAL H OR REGULATOR_MODE_STANDBY H,
           valid_ops_mask := REGULATOR_CHANGE_MODE H OR REGULATOR_CHANGE_STATUS H\<rparr>\<rparr>"

definition omap5_dss_phy_supply :: "regulator_consumer_supply list" where
  "omap5_dss_phy_supply = [REGULATOR_SUPPLY ''vdds_dsi'' ''omapdss'', REGULATOR_SUPPLY ''vdds_dsi'' ''omapdss_dsi.0'', REGULATOR_SUPPLY ''vdds_dsi'' ''omapdss_dsi.1'', REGULATOR_SUPPLY ''vdds_hdmi'' ''omapdss_hdmi'']"

definition omap5_ldo7 :: "hdr \<Rightarrow> regulator_init_data" where
  "omap5_ldo7 H =
     regulator_init_data_zero
       \<lparr>constraints := regulation_constraints_zero
          \<lparr>min_uV := 1500000,
           max_uV := 1500000,
           valid_modes_mask := REGULATOR_MODE_NORMAL H OR REGULATOR_MODE_STANDBY H,
           valid_ops_mask := REGULATOR_CHANGE_MODE H OR REGULATOR_CHANGE_STATUS H,
           apply_uV := True\<rparr>,
        num_consumer_supplies := ARRAY_SIZE omap5_dss_phy_supply,
        consumer_supplies := omap5_dss_phy_supply\<rparr>"

definition omap5_ldo8 :: "hdr \<Rightarrow> regulator_init_data" where
  "omap5_ldo8 H =
     regulator_init_data_zero
       \<lparr>constraints := regulation_constraints_zero
          \<lparr>min_uV := 1500000,
           max_uV := 1500000,
           valid_modes_mask := REGULATOR_MODE_NORMAL H OR REGULATOR_MODE_STANDBY H,
           valid_ops_mask := REGULATOR_CHANGE_MODE H OR REGULATOR_CHANGE_STATUS H\<rparr>\<rparr>"

definition omap5_mmc1_io_supply :: "regulator_consumer_supply list" where
  "omap5_mmc1_io_supply = [REGULATOR_SUPPLY ''vmmc_aux'' ''omap_hsmmc.0'']"

definition omap5_ldo9 :: "hdr \<Rightarrow> regulator_init_data" where
  "omap5_ldo9 H =
     regulator_init_data_zero
       \<lparr>constraints := regulation_constraints_zero
          \<lparr>min_uV := 1800000,
           max_uV := 3000000,
           valid_modes_mask := REGULATOR_MODE_NORMAL H OR REGULATOR_MODE_STANDBY H,
           valid_ops_mask := REGULATOR_CHANGE_VOLTAGE H OR REGULATOR_CHANGE_MODE H OR REGULATOR_CHANGE_STATUS H\<rparr>,
        num_consumer_supplies := ARRAY_SIZE omap5_mmc1_io_supply,
        consumer_supplies := omap5_mmc1_io_supply\<rparr>"

definition omap5_ldoln :: "hdr \<Rightarrow> regulator_init_data" where
  "omap5_ldoln H =
     regulator_init_data_zero
       \<lparr>constraints := regulation_constraints_zero
          \<lparr>min_uV := 1800000,
           max_uV := 1800000,
           valid_modes_mask := REGULATOR_MODE_NORMAL H OR REGULATOR_MODE_STANDBY H,
           valid_ops_mask := REGULATOR_CHANGE_MODE H OR REGULATOR_CHANGE_STATUS H\<rparr>\<rparr>"

definition omap5_ldousb :: "hdr \<Rightarrow> regulator_init_data" where
  "omap5_ldousb H =
     regulator_init_data_zero
       \<lparr>constraints := regulation_constraints_zero
          \<lparr>min_uV := 3250000,
           max_uV := 3250000,
           valid_modes_mask := REGULATOR_MODE_NORMAL H OR REGULATOR_MODE_STANDBY H,
           valid_ops_mask := REGULATOR_CHANGE_MODE H OR REGULATOR_CHANGE_STATUS H\<rparr>\<rparr>"

text \<open>The table \<open>palmas_omap5_reg\<close>; \<open>None\<close> is a \<open>NULL\<close> entry.\<close>

definition palmas_omap5_reg :: "hdr \<Rightarrow> regulator_init_data option list" where
  "palmas_omap5_reg H =
    [Some (omap5_smps12 H),
     None,
     None,
     Some (omap5_smps45 H),
     None,
     Some (omap5_smps6 H),
     Some (omap5_smps7 H),
     Some (omap5_smps8 H),
     Some (omap5_smps9 H),
     Some (omap5_smps10 H),
     Some (omap5_ldo1 H),
     Some (omap5_ldo2 H),
     Some (omap5_ldo3 H),
     Some (omap5_ldo4 H),
     Some (omap5_ldo5 H),
     Some (omap5_ldo6 H),
     Some (omap5_ldo7 H),
     Some (omap5_ldo8 H),
     Some (omap5_ldo9 H),
     Some (omap5_ldoln H),
     Some (omap5_ldousb H)]"

definition omap5_sdp5430_vmmc3_supply :: "regulator_consumer_supply list" where
  "omap5_sdp5430_vmmc3_supply = [REGULATOR_SUPPLY ''vmmc'' ''omap_hsmmc.2'']"

definition sdp5430_vmmc3 :: "hdr \<Rightarrow> regulator_init_data" where
  "sdp5430_vmmc3 H =
     regulator_init_data_zero
       \<lparr>constraints := regulation_constraints_zero
          \<lparr>valid_ops_mask := REGULATOR_CHANGE_STATUS H\<rparr>,
        num_consumer_supplies := ARRAY_SIZE omap5_sdp5430_vmmc3_supply,
        consumer_supplies := omap5_sdp5430_vmmc3_supply\<rparr>"

subsection \<open>Audio codec, I2C devices, MMC, USB host, WLAN\<close>

record twl6040_platform_data =
  codec :: arg
  vibra :: arg
  audpwron_gpio :: int
  irq_base :: int

definition twl6040_data_init :: "hdr \<Rightarrow> twl6040_platform_data" where
  "twl6040_data_init H =
     \<lparr>codec = Ref ''twl6040_codec'',
      vibra = Ref ''twl6040_vibra'',
      audpwron_gpio = 145,
      irq_base = TWL6040_CODEC_IRQ_BASE H\<rparr>"

text \<open>
  \<open>struct i2c_board_info\<close>: \<open>I2C_BOARD_INFO(type, addr)\<close> sets the first two members; a
  member that an initialiser does not name is a null pointer or zero.
\<close>

record i2c_board_info =
  i2c_type :: string
  i2c_addr :: int
  platform_data :: arg
  i2c_irq :: int

definition hdmi_i2c_eeprom :: "hdr \<Rightarrow> i2c_board_info list" where
  "hdmi_i2c_eeprom H =
    [\<lparr>i2c_type = ''eeprom'', i2c_addr = DDC_ADDR H, platform_data = Null, i2c_irq = 0\<rparr>]"

definition omap5evm_i2c_1_boardinfo :: "hdr \<Rightarrow> config \<Rightarrow> i2c_board_info list" where
  "omap5evm_i2c_1_boardinfo H C =
     (if CONFIG_OMAP5_SEVM_PALMAS C
      then [\<lparr>i2c_type = ''twl6035'', i2c_addr = 0x48, platform_data = Ref ''palmas_omap5'',
             i2c_irq = OMAP44XX_IRQ_SYS_1N H\<rparr>]
      else []) @
     [\<lparr>i2c_type = ''twl6040'', i2c_addr = 0x4b, platform_data = Ref ''twl6040_data'',
       i2c_irq = OMAP44XX_IRQ_SYS_2N H\<rparr>]"

record pca953x_platform_data =
  gpio_base :: int

definition omap_5430evm_gpio_expander_info_0 :: "hdr \<Rightarrow> pca953x_platform_data" where
  "omap_5430evm_gpio_expander_info_0 H = \<lparr>gpio_base = OMAP_MAX_GPIO_LINES H\<rparr>"

definition omap5evm_i2c_5_boardinfo :: "i2c_board_info list" where
  "omap5evm_i2c_5_boardinfo =
    [\<lparr>i2c_type = ''smsc'', i2c_addr = 0x38, platform_data = Ref ''omap5_kp_data'',
      i2c_irq = 151\<rparr>,
     \<lparr>i2c_type = ''tca6424'', i2c_addr = 0x22,
      platform_data = Ref ''omap_5430evm_gpio_expander_info_0'', i2c_irq = 0\<rparr>]"

text \<open>\<open>struct omap2_hsmmc_info\<close>; the member \<open>mmc\<close> of the source is \<open>mmc_nr\<close> here.\<close>

record omap2_hsmmc_info =
  mmc_nr :: int
  caps :: "32 word"
  gpio_cd :: int
  gpio_wp :: int
  nonremovable :: bool
  ocr_mask :: "32 word"
  no_off_init :: bool

definition omap2_hsmmc_info_zero :: omap2_hsmmc_info where
  "omap2_hsmmc_info_zero =
     \<lparr>mmc_nr = 0, caps = 0, gpio_cd = 0, gpio_wp = 0, nonremovable = False, ocr_mask = 0,
      no_off_init = False\<rparr>"

definition mmc_init :: "hdr \<Rightarrow> omap2_hsmmc_info list" where
  "mmc_init H =
    [omap2_hsmmc_info_zero
       \<lparr>mmc_nr := 2,
        caps := MMC_CAP_4_BIT_DATA H OR MMC_CAP_8_BIT_DATA H OR MMC_CAP_1_8V_DDR H,
        gpio_cd := - EINVAL H,
        gpio_wp := - EINVAL H,
        nonremovable := True,
        ocr_mask := MMC_VDD_29_30 H,
        no_off_init := True\<rparr>,
     omap2_hsmmc_info_zero
       \<lparr>mmc_nr := 1,
        caps := MMC_CAP_4_BIT_DATA H OR MMC_CAP_UHS_SDR12 H OR MMC_CAP_UHS_SDR25 H
                  OR MMC_CAP_UHS_DDR50 H,
        gpio_cd := 67,
        gpio_wp := - EINVAL H\<rparr>,
     omap2_hsmmc_info_zero
       \<lparr>mmc_nr := 3,
        caps := MMC_CAP_4_BIT_DATA H OR MMC_CAP_POWER_OFF_CARD H,
        gpio_cd := - EINVAL H,
        gpio_wp := - EINVAL H,
        ocr_mask := MMC_VDD_165_195 H,
        nonremovable := True\<rparr>,
     omap2_hsmmc_info_zero]"

record fixed_voltage_config =
  supply_name :: string
  microvolts :: int
  fv_gpio :: int
  startup_delay :: int
  enable_high :: bool
  enabled_at_boot :: bool
  init_data :: regulator_init_data

definition sdp5430_vwlan :: "hdr \<Rightarrow> fixed_voltage_config" where
  "sdp5430_vwlan H =
     \<lparr>supply_name = ''vwl1271'',
      microvolts = 1800000,
      fv_gpio = GPIO_WIFI_PMENA,
      startup_delay = 70000,
      enable_high = True,
      enabled_at_boot = False,
      init_data = sdp5430_vmmc3 H\<rparr>"

record wl12xx_platform_data =
  irq :: int
  board_ref_clock :: int
  board_tcxo_clock :: int

definition omap5_sdp5430_wlan_data_init :: "hdr \<Rightarrow> wl12xx_platform_data" where
  "omap5_sdp5430_wlan_data_init H =
     \<lparr>irq = 0,
      board_ref_clock = WL12XX_REFCLOCK_26 H,
      board_tcxo_clock = WL12XX_TCXOCLOCK_26 H\<rparr>"

datatype usbhs_port_mode = OMAP_USBHS_PORT_MODE_UNUSED | OMAP_EHCI_PORT_MODE_HSIC

record usbhs_omap_board_data =
  port_mode :: "usbhs_port_mode list"
  phy_reset :: bool
  reset_gpio_port :: "int list"

definition usbhs_bdata_init :: "hdr \<Rightarrow> usbhs_omap_board_data" where
  "usbhs_bdata_init H =
     \<lparr>port_mode = [OMAP_USBHS_PORT_MODE_UNUSED, OMAP_EHCI_PORT_MODE_HSIC,
                   OMAP_EHCI_PORT_MODE_HSIC],
      phy_reset = True,
      reset_gpio_port = [- EINVAL H, GPIO_HUB_NRESET_SEVM, GPIO_ETH_NRESET_SEVM]\<rparr>"

subsection \<open>Pin multiplexing tables, device lists, display\<close>

record omap_mux_setting =
  mux_name :: string
  mode :: "32 word"

definition omap5432_common_mux :: "hdr \<Rightarrow> omap_mux_setting list" where
  "omap5432_common_mux H =
    [\<lparr>mux_name = ''emmc_clk.emmc_clk'',
      mode = OMAP_PIN_INPUT_PULLUP H OR OMAP_MUX_MODE0 H\<rparr>,
     \<lparr>mux_name = ''emmc_cmd.emmc_cmd'',
      mode = OMAP_PIN_INPUT_PULLUP H OR OMAP_MUX_MODE0 H\<rparr>,
     \<lparr>mux_name = ''emmc_data0.emmc_data0'',
      mode = OMAP_PIN_INPUT_PULLUP H OR OMAP_MUX_MODE0 H\<rparr>,
     \<lparr>mux_name = ''emmc_data1.emmc_data1'',
      mode = OMAP_PIN_INPUT_PULLUP H OR OMAP_MUX_MODE0 H\<rparr>,
     \<lparr>mux_name = ''emmc_data2.emmc_data2'',
      mode = OMAP_PIN_INPUT_PULLUP H OR OMAP_MUX_MODE0 H\<rparr>,
     \<lparr>mux_name = ''emmc_data3.emmc_data3'',
      mode = OMAP_PIN_INPUT_PULLUP H OR OMAP_MUX_MODE0 H\<rparr>,
     \<lparr>mux_name = ''emmc_data4.emmc_data4'',
      mode = OMAP_PIN_INPUT_PULLUP H OR OMAP_MUX_MODE0 H\<rparr>,
     \<lparr>mux_name = ''emmc_data5.emmc_data5'',
      mode = OMAP_PIN_INPUT_PULLUP H OR OMAP_MUX_MODE0 H\<rparr>,
     \<lparr>mux_name = ''emmc_data6.emmc_data6'',
      mode = OMAP_PIN_INPUT_PULLUP H OR OMAP_MUX_MODE0 H\<rparr>,
     \<lparr>mux_name = ''emmc_data7.emmc_data7'',
      mode = OMAP_PIN_INPUT_PULLUP H OR OMAP_MUX_MODE0 H\<rparr>,
     \<lparr>mux_name = ''abemcpdm_lb_clk.abemcpdm_lb_clk'',
      mode = OMAP_PIN_INPUT H OR OMAP_MUX_MODE0 H\<rparr>,
     \<lparr>mux_name = ''abemcpdm_frame.abemcpdm_frame'',
      mode = OMAP_PIN_INPUT H OR OMAP_MUX_MODE0 H\<rparr>,
     \<lparr>mux_name = ''abemcpdm_dl_data.abemcpdm_dl_data'',
      mode = OMAP_PIN_INPUT H OR OMAP_MUX_MODE0 H\<rparr>,
     \<lparr>mux_name = ''abemcpdm_ul_data.abemcpdm_ul_data'',
      mode = OMAP_PIN_INPUT H OR OMAP_MUX_MODE0 H\<rparr>,
     \<lparr>mux_name = ''abe_clks.abe_clks'',
      mode = OMAP_PIN_INPUT H OR OMAP_MUX_MODE0 H\<rparr>]"

definition omap5432_sevm_mux :: "hdr \<Rightarrow> omap_mux_setting list" where
  "omap5432_sevm_mux H =
    [\<lparr>mux_name = ''rfbi_data6.gpio6_172'',
      mode = OMAP_PIN_OUTPUT H OR OMAP_MUX_MODE6 H\<rparr>,
     \<lparr>mux_name = ''rfbi_data7.gpio6_173'',
      mode = OMAP_PIN_OUTPUT H OR OMAP_MUX_MODE6 H\<rparr>]"

definition omap5432_uevm_mux :: "hdr \<Rightarrow> omap_mux_setting list" where
  "omap5432_uevm_mux H =
    [\<lparr>mux_name = ''i2c1_pmic_scl.i2c1_pmic_scl'',
      mode = OMAP_PIN_INPUT_PULLUP H OR OMAP_MUX_MODE0 H\<rparr>,
     \<lparr>mux_name = ''i2c1_pmic_sda.i2c1_pmic_sda'',
      mode = OMAP_PIN_INPUT_PULLUP H OR OMAP_MUX_MODE0 H\<rparr>,
     \<lparr>mux_name = ''i2c5_scl.i2c5_scl'',
      mode = OMAP_PIN_INPUT_PULLUP H OR OMAP_MUX_MODE0 H\<rparr>,
     \<lparr>mux_name = ''i2c5_sda.i2c5_sda'',
      mode = OMAP_PIN_INPUT_PULLUP H OR OMAP_MUX_MODE0 H\<rparr>,
     \<lparr>mux_name = ''uart6_rts.gpio5_152'',
      mode = OMAP_PIN_INPUT_PULLUP H OR OMAP_MUX_MODE6 H\<rparr>,
     \<lparr>mux_name = ''hsi2_caflag.gpio3_80'',
      mode = OMAP_PIN_OUTPUT H\<rparr>,
     \<lparr>mux_name = ''llib_wakereqin.gpio1_wk15'',
      mode = OMAP_PIN_OUTPUT H OR OMAP_MUX_MODE6 H\<rparr>,
     \<lparr>mux_name = ''hdmi_cec.hdmi_cec'',
      mode = OMAP_PIN_INPUT H OR OMAP_MUX_MODE0 H\<rparr>,
     \<lparr>mux_name = ''hdmi_hpd.gpio7_193'',
      mode = OMAP_PIN_INPUT H OR OMAP_MUX_MODE6 H\<rparr>,
     \<lparr>mux_name = ''hdmi_ddc_scl.gpio7_194'',
      mode = OMAP_PIN_INPUT_PULLUP H OR OMAP_MUX_MODE6 H\<rparr>,
     \<lparr>mux_name = ''hdmi_ddc_sda.gpio7_195'',
      mode = OMAP_PIN_INPUT_PULLUP H OR OMAP_MUX_MODE6 H\<rparr>,
     \<lparr>mux_name = ''usbb2_hsic_strobe.usbb2_hsic_strobe'',
      mode = OMAP_PIN_INPUT H OR OMAP_MUX_MODE0 H\<rparr>,
     \<lparr>mux_name = ''usbb2_hsic_data.usbb2_hsic_data'',
      mode = OMAP_PIN_INPUT H OR OMAP_MUX_MODE0 H\<rparr>,
     \<lparr>mux_name = ''usbb3_hsic_strobe.usbb3_hsic_strobe'',
      mode = OMAP_PIN_INPUT H OR OMAP_MUX_MODE0 H\<rparr>,
     \<lparr>mux_name = ''usbb3_hsic_data.usbb3_hsic_data'',
      mode = OMAP_PIN_INPUT H OR OMAP_MUX_MODE0 H\<rparr>,
     \<lparr>mux_name = ''fref_clk1_out.fref_clk1_out'',
      mode = OMAP_PIN_OUTPUT H\<rparr>,
     \<lparr>mux_name = ''fref_clk0_out.fref_clk0_out'',
      mode = OMAP_PIN_OUTPUT H\<rparr>,
     \<lparr>mux_name = ''mcspi1_somi.gpio5_141'',
      mode = OMAP_PIN_OUTPUT H OR OMAP_MUX_MODE6 H\<rparr>]"

definition omap5evm_fixup_mac_device_paths :: "string list" where
  "omap5evm_fixup_mac_device_paths = [''1-3:1.0'', ''mmc2:0001:2'']"

definition omap5evm_devices :: "arg list" where
  "omap5evm_devices =
    [Ref ''omap5evm_dmic_codec'',
     Ref ''omap5evm_hdmi_audio_codec'',
     Ref ''omap5evm_abe_audio'',
     Ref ''leds_gpio'']"

record omap_rprm_regulator =
  rprm_name :: string
  fixed :: bool

definition omap5evm_rprm_regulators :: "omap_rprm_regulator list" where
  "omap5evm_rprm_regulators =
    [\<lparr>rprm_name = ''cam2pwr'', fixed = True\<rparr>,
     \<lparr>rprm_name = ''cam2csi'', fixed = True\<rparr>]"

record panel_lg4591_data =
  reset_gpio :: int
  set_power :: arg
  num_pins :: int
  pins :: "int list"

definition dsi_panel :: panel_lg4591_data where
  "dsi_panel =
     \<lparr>reset_gpio = 183,
      set_power = Ref ''lg_panel_set_power'',
      num_pins = 8,
      pins = [0, 1, 2, 3, 4, 5, 6, 7]\<rparr>"

text \<open>The display devices are referred to by address.\<close>

definition omap5evm_dss_devices :: "arg list" where
  "omap5evm_dss_devices = [Ref ''omap5evm_lcd_device'', Ref ''omap5evm_hdmi_device'']"

record omap_dss_board_info =
  num_devices :: int
  devices :: "arg list"
  default_device :: arg

definition omap5evm_dss_data :: omap_dss_board_info where
  "omap5evm_dss_data =
     \<lparr>num_devices = ARRAY_SIZE omap5evm_dss_devices,
      devices = omap5evm_dss_devices,
      default_device = Ref ''omap5evm_hdmi_device''\<rparr>"

subsection \<open>The I2C bus board data\<close>

text \<open>
  \<open>struct omap_i2c_bus_board_data\<close>, the three members that the file uses: the lock handle,
  a pointer that the kernel hands out, and two function pointers.
\<close>

record omap_i2c_bus_board_data =
  handle :: ptr
  hwspin_lock_timeout :: arg
  hwspin_unlock :: arg

definition omap_i2c_bus_board_data_zero :: omap_i2c_bus_board_data where
  "omap_i2c_bus_board_data_zero =
     \<lparr>handle = NULL, hwspin_lock_timeout = Null, hwspin_unlock = Null\<rparr>"

subsection \<open>The statics that the init code writes, and the kernel's answers\<close>

record board =
  gpio_wlan_irq :: int
  mmc :: "omap2_hsmmc_info list"
  usbhs_bdata :: usbhs_omap_board_data
  twl6040_data :: twl6040_platform_data
  omap5_sdp5430_wlan_data :: wl12xx_platform_data
  sdp4430_i2c_1_bus_pdata :: omap_i2c_bus_board_data
  sdp4430_i2c_2_bus_pdata :: omap_i2c_bus_board_data
  sdp4430_i2c_3_bus_pdata :: omap_i2c_bus_board_data
  sdp4430_i2c_4_bus_pdata :: omap_i2c_bus_board_data
  sdp4430_i2c_5_bus_pdata :: omap_i2c_bus_board_data
  trace :: "event list"

text \<open>
  The statics as their initialisers leave them, before any init code has run. A static
  without an initialiser is zero. The tables that no code of the file assigns to are the
  constants defined above.
\<close>

definition board_init :: "hdr \<Rightarrow> board" where
  "board_init H =
     \<lparr>gpio_wlan_irq = 9,
      mmc = mmc_init H,
      usbhs_bdata = usbhs_bdata_init H,
      twl6040_data = twl6040_data_init H,
      omap5_sdp5430_wlan_data = omap5_sdp5430_wlan_data_init H,
      sdp4430_i2c_1_bus_pdata = omap_i2c_bus_board_data_zero,
      sdp4430_i2c_2_bus_pdata = omap_i2c_bus_board_data_zero,
      sdp4430_i2c_3_bus_pdata = omap_i2c_bus_board_data_zero,
      sdp4430_i2c_4_bus_pdata = omap_i2c_bus_board_data_zero,
      sdp4430_i2c_5_bus_pdata = omap_i2c_bus_board_data_zero,
      trace = []\<rparr>"

text \<open>
  What the kernel returns from the calls whose value reaches the code, as a function of the
  arguments.
\<close>

record kernel =
  hwspin_lock_request_ret :: ptr
  hwspin_lock_request_specific_ret :: "int \<Rightarrow> ptr"
  gpio_request_ret :: "int \<Rightarrow> string \<Rightarrow> int"
  gpio_request_one_ret :: "int \<Rightarrow> 32 word \<Rightarrow> string \<Rightarrow> int"
  wl12xx_set_platform_data_ret :: "wl12xx_platform_data \<Rightarrow> int"
  omap4_keyboard_init_ret :: int
  clk_get_ret :: "string \<Rightarrow> ptr"

record env =
  hdr :: hdr
  kernel :: kernel
  config :: config

subsection \<open>Calls and log messages\<close>

definition emit :: "event \<Rightarrow> board \<Rightarrow> board" where
  "emit e s = s\<lparr>trace := trace s @ [e]\<rparr>"

definition call :: "string \<Rightarrow> arg list \<Rightarrow> board \<Rightarrow> board" where
  "call f args s = emit (Call f args) s"

definition printk :: "loglevel \<Rightarrow> string \<Rightarrow> arg list \<Rightarrow> board \<Rightarrow> board" where
  "printk lvl fmt args s = emit (Log lvl fmt args) s"

definition pr_err :: "string \<Rightarrow> arg list \<Rightarrow> board \<Rightarrow> board" where
  "pr_err fmt args s = printk KERN_ERR fmt args s"

definition pr_info :: "string \<Rightarrow> arg list \<Rightarrow> board \<Rightarrow> board" where
  "pr_info fmt args s = printk KERN_INFO fmt args s"

text \<open>
  The kernel functions whose return value the code receives: the call and its answer. A
  call is an event and nothing more: the functions called are taken not to write to the
  statics of this file through the pointers they are given.
\<close>

definition hwspin_lock_request :: "env \<Rightarrow> board \<Rightarrow> ptr \<times> board" where
  "hwspin_lock_request E s =
     (hwspin_lock_request_ret (kernel E), call ''hwspin_lock_request'' [] s)"

definition hwspin_lock_request_specific :: "env \<Rightarrow> int \<Rightarrow> board \<Rightarrow> ptr \<times> board" where
  "hwspin_lock_request_specific E lock_id s =
     (hwspin_lock_request_specific_ret (kernel E) lock_id,
      call ''hwspin_lock_request_specific'' [I lock_id] s)"

definition gpio_request :: "env \<Rightarrow> int \<Rightarrow> string \<Rightarrow> board \<Rightarrow> int \<times> board" where
  "gpio_request E gpio label s =
     (gpio_request_ret (kernel E) gpio label, call ''gpio_request'' [I gpio, S label] s)"

definition gpio_request_one ::
  "env \<Rightarrow> int \<Rightarrow> 32 word \<Rightarrow> string \<Rightarrow> board \<Rightarrow> int \<times> board" where
  "gpio_request_one E gpio flags label s =
     (gpio_request_one_ret (kernel E) gpio flags label,
      call ''gpio_request_one'' [I gpio, W flags, S label] s)"

definition wl12xx_set_platform_data :: "env \<Rightarrow> board \<Rightarrow> int \<times> board" where
  "wl12xx_set_platform_data E s =
     (wl12xx_set_platform_data_ret (kernel E) (omap5_sdp5430_wlan_data s),
      call ''wl12xx_set_platform_data'' [Ref ''omap5_sdp5430_wlan_data''] s)"

definition omap4_keyboard_init :: "env \<Rightarrow> board \<Rightarrow> int \<times> board" where
  "omap4_keyboard_init E s =
     (omap4_keyboard_init_ret (kernel E),
      call ''omap4_keyboard_init'' [Ref ''evm5430_keypad_data'', Ref ''keypad_data''] s)"

definition clk_get :: "env \<Rightarrow> string \<Rightarrow> board \<Rightarrow> ptr \<times> board" where
  "clk_get E con_id s =
     (clk_get_ret (kernel E) con_id, call ''clk_get'' [Null, S con_id] s)"

subsection \<open>The init functions\<close>

definition omap_i2c_hwspinlock_init ::
  "env \<Rightarrow> int \<Rightarrow> int \<Rightarrow> omap_i2c_bus_board_data \<Rightarrow> board
     \<Rightarrow> omap_i2c_bus_board_data \<times> board" where
  "omap_i2c_hwspinlock_init E bus_id spinlock_id pdata s =
     (let (pdata, s) =
            (if spinlock_id < 0
             then (let (h, s) = hwspin_lock_request E s in (pdata\<lparr>handle := h\<rparr>, s))
             else (let (h, s) = hwspin_lock_request_specific E spinlock_id s
                   in (pdata\<lparr>handle := h\<rparr>, s)))
      in if handle pdata \<noteq> NULL
         then (pdata\<lparr>hwspin_lock_timeout := Ref ''hwspin_lock_timeout'',
                      hwspin_unlock := Ref ''hwspin_unlock''\<rparr>, s)
         else (pdata,
               pr_err ''I2C hwspinlock request failed for bus %d\<newline>'' [I bus_id] s))"

text \<open>
  The five bus structures are passed by address: the structure is read from the board, and
  what the callee leaves in it is written back.
\<close>

definition omap_5430evm_i2c_init :: "env \<Rightarrow> board \<Rightarrow> int \<times> board" where
  "omap_5430evm_i2c_init E s =
     (let
          (p, s) = omap_i2c_hwspinlock_init E 1 0 (sdp4430_i2c_1_bus_pdata s) s;
          s = s\<lparr>sdp4430_i2c_1_bus_pdata := p\<rparr>;
          (p, s) = omap_i2c_hwspinlock_init E 2 1 (sdp4430_i2c_2_bus_pdata s) s;
          s = s\<lparr>sdp4430_i2c_2_bus_pdata := p\<rparr>;
          (p, s) = omap_i2c_hwspinlock_init E 3 2 (sdp4430_i2c_3_bus_pdata s) s;
          s = s\<lparr>sdp4430_i2c_3_bus_pdata := p\<rparr>;
          (p, s) = omap_i2c_hwspinlock_init E 4 3 (sdp4430_i2c_4_bus_pdata s) s;
          s = s\<lparr>sdp4430_i2c_4_bus_pdata := p\<rparr>;
          (p, s) = omap_i2c_hwspinlock_init E 5 4 (sdp4430_i2c_5_bus_pdata s) s;
          s = s\<lparr>sdp4430_i2c_5_bus_pdata := p\<rparr>;
          s = call ''omap_register_i2c_bus_board_data''
                [I 1, Ref ''sdp4430_i2c_1_bus_pdata''] s;
          s = call ''omap_register_i2c_bus_board_data''
                [I 2, Ref ''sdp4430_i2c_2_bus_pdata''] s;
          s = call ''omap_register_i2c_bus_board_data''
                [I 3, Ref ''sdp4430_i2c_3_bus_pdata''] s;
          s = call ''omap_register_i2c_bus_board_data''
                [I 4, Ref ''sdp4430_i2c_4_bus_pdata''] s;
          s = call ''omap_register_i2c_bus_board_data''
                [I 5, Ref ''sdp4430_i2c_5_bus_pdata''] s;
          s = (if CONFIG_OMAP5_SEVM_PALMAS (config E)
               then call ''omap_register_i2c_bus''
                      [I 1, I 400, Ref ''omap5evm_i2c_1_boardinfo'',
                       I (ARRAY_SIZE (omap5evm_i2c_1_boardinfo (hdr E) (config E)))] s
               else call ''omap_register_i2c_bus'' [I 1, I 400, Null, I 0] s);
          s = call ''omap_register_i2c_bus'' [I 2, I 400, Null, I 0] s;
          s = call ''omap_register_i2c_bus'' [I 3, I 400, Null, I 0] s;
          s = call ''omap_register_i2c_bus'' [I 4, I 400, Null, I 0] s;
          s = call ''omap_register_i2c_bus''
                [I 5, I 400, Ref ''omap5evm_i2c_5_boardinfo'',
                 I (ARRAY_SIZE omap5evm_i2c_5_boardinfo)] s
      in (0, s))"

definition omap5evm_touch_init :: "env \<Rightarrow> board \<Rightarrow> int \<times> board" where
  "omap5evm_touch_init E s =
     (let (_, s) = gpio_request E OMAP5_TOUCH_IRQ_1 ''atmel touch irq'' s;
          s = call ''gpio_direction_input'' [I OMAP5_TOUCH_IRQ_1] s;
          (_, s) = gpio_request E OMAP5_TOUCH_RESET ''atmel reset'' s;
          s = call ''gpio_direction_output'' [I OMAP5_TOUCH_RESET, I 1] s;
          s = call ''mdelay'' [I 100] s;
          s = call ''gpio_direction_output'' [I OMAP5_TOUCH_RESET, I 0] s;
          s = call ''mdelay'' [I 100] s;
          s = call ''gpio_direction_output'' [I OMAP5_TOUCH_RESET, I 1] s
      in (0, s))"

definition omap5_sdp5430_wifi_mux_init :: "env \<Rightarrow> board \<Rightarrow> board" where
  "omap5_sdp5430_wifi_mux_init E s =
     (let H = hdr E;
          s = call ''omap_mux_init_gpio''
                [I (gpio_wlan_irq s), W (OMAP_PIN_INPUT H OR OMAP_PIN_OFF_WAKEUPENABLE H)] s;
          s = call ''omap_mux_init_gpio'' [I GPIO_WIFI_PMENA, W (OMAP_PIN_OUTPUT H)] s;
          s = call ''omap_mux_init_signal''
                [S ''wlsdio_cmd.wlsdio_cmd'', W (OMAP_MUX_MODE0 H OR OMAP_PIN_INPUT_PULLUP H)] s;
          s = call ''omap_mux_init_signal''
                [S ''wlsdio_clk.wlsdio_clk'', W (OMAP_MUX_MODE0 H OR OMAP_PIN_INPUT_PULLUP H)] s;
          s = call ''omap_mux_init_signal''
                [S ''wlsdio_data0.wlsdio_data0'',
                 W (OMAP_MUX_MODE0 H OR OMAP_PIN_INPUT_PULLUP H)] s;
          s = call ''omap_mux_init_signal''
                [S ''wlsdio_data1.wlsdio_data1'',
                 W (OMAP_MUX_MODE0 H OR OMAP_PIN_INPUT_PULLUP H)] s;
          s = call ''omap_mux_init_signal''
                [S ''wlsdio_data2.wlsdio_data2'',
                 W (OMAP_MUX_MODE0 H OR OMAP_PIN_INPUT_PULLUP H)] s
      in call ''omap_mux_init_signal''
           [S ''wlsdio_data3.wlsdio_data3'',
            W (OMAP_MUX_MODE0 H OR OMAP_PIN_INPUT_PULLUP H)] s)"

definition omap5_sdp5430_wifi_init :: "env \<Rightarrow> board \<Rightarrow> board" where
  "omap5_sdp5430_wifi_init E s =
     (let s = omap5_sdp5430_wifi_mux_init E s;
          s = s\<lparr>omap5_sdp5430_wlan_data :=
                  (omap5_sdp5430_wlan_data s)
                    \<lparr>irq := OMAP_GPIO_IRQ (hdr E) (gpio_wlan_irq s)\<rparr>\<rparr>;
          (r, s) = gpio_request_one E (gpio_wlan_irq s) (GPIOF_IN (hdr E)) ''wlan'' s;
          s = (if r \<noteq> 0
               then printk KERN_INFO
                      ''wlan: IRQ gpio request failure in board file\<newline>'' [] s
               else s);
          (r, s) = wl12xx_set_platform_data E s;
          s = (if r \<noteq> 0 then pr_err ''Error setting wl12xx data\<newline>'' [] s else s)
      in call ''platform_device_register'' [Ref ''omap_vwlan_device''] s)"

definition omap_ehci_ohci_init :: "env \<Rightarrow> board \<Rightarrow> board" where
  "omap_ehci_ohci_init E s = call ''usbhs_init'' [Ref ''usbhs_bdata''] s"

definition omap5evm_lcd_init :: "env \<Rightarrow> board \<Rightarrow> board" where
  "omap5evm_lcd_init E s =
     (let (r, s) = gpio_request_one E (reset_gpio dsi_panel) (GPIOF_DIR_OUT (hdr E))
                     ''lcd1_reset_gpio'' s
      in if r \<noteq> 0
         then pr_err ''%s: Could not get lcd1_reset_gpio\<newline>'' [S ''omap5evm_lcd_init''] s
         else s)"

definition omap5evm_hdmi_init :: "env \<Rightarrow> board \<Rightarrow> board" where
  "omap5evm_hdmi_init E s =
     (let (r, s) = gpio_request_one E HDMI_GPIO_HPD (GPIOF_DIR_IN (hdr E))
                     ''hdmi_gpio_hpd'' s;
          s = (if r \<noteq> 0
               then pr_err ''%s: Could not get HDMI\<newline>'' [S ''omap5evm_hdmi_init''] s
               else s);
          (r, s) = gpio_request_one E HDMI_HPD_EN_GPIO (GPIOF_OUT_INIT_HIGH (hdr E))
                     ''HDMI_HPD_EN'' s;
          s = (if r \<noteq> 0 then pr_err ''Failed to get HDMI HPD EN GPIO\<newline>'' [] s else s)
      in call ''omap_hdmi_init'' [I 0] s)"

definition omap5evm_display_init :: "env \<Rightarrow> board \<Rightarrow> board" where
  "omap5evm_display_init E s =
     (let s = omap5evm_lcd_init E s;
          s = omap5evm_hdmi_init E s
      in call ''omap_display_init'' [Ref ''omap5evm_dss_data''] s)"

text \<open>
  The two callbacks of the HDMI display device. They are not called by the init code; the
  display driver calls them later. The argument \<open>dssdev\<close> is not used.
\<close>

definition omap5evm_panel_enable_hdmi :: "env \<Rightarrow> board \<Rightarrow> int \<times> board" where
  "omap5evm_panel_enable_hdmi E s =
     (let s = pr_info ''omap5evm_panel_enable_hdmi\<newline>'' [] s;
          (r, s) = gpio_request_one E HDMI_HPD_EN_GPIO (GPIOF_OUT_INIT_HIGH (hdr E))
                     ''HDMI_HPD_EN'' s;
          (r, s) = gpio_request_one E HDMI_OE_GPIO (GPIOF_OUT_INIT_HIGH (hdr E))
                     ''HDMI_OE'' s;
          s = (if r \<noteq> 0 then pr_err ''Failed to get HDMI OE GPIO\<newline>'' [] s else s)
      in (0, s))"

definition omap5evm_panel_disable_hdmi :: "env \<Rightarrow> board \<Rightarrow> board" where
  "omap5evm_panel_disable_hdmi E s =
     (let s = pr_info ''omap5evm_panel_disable_hdmi\<newline>'' [] s;
          s = call ''gpio_set_value_cansleep'' [I HDMI_OE_GPIO, I 0] s
      in call ''gpio_free'' [I HDMI_OE_GPIO] s)"

definition omap54xx_common_init :: "env \<Rightarrow> board \<Rightarrow> board" where
  "omap54xx_common_init E s =
     (let H = hdr E;
          s = call ''omap_mux_init_array''
                [Ref ''omap5432_common_mux'', I (ARRAY_SIZE (omap5432_common_mux H))] s;
          (_, s) = omap_5430evm_i2c_init E s;
          s = (if CONFIG_WL12XX_PLATFORM_DATA (config E)
               then omap5_sdp5430_wifi_init E s else s);
          s = call ''omap_emif_set_device_details''
                [I 1, Ref ''lpddr2_elpida_4G_S4_x2_info'', Ref ''lpddr2_elpida_4G_S4_timings'',
                 I (lpddr2_elpida_4G_S4_timings_size H), Ref ''lpddr2_elpida_S4_min_tck'',
                 Ref ''custom_configs''] s;
          s = call ''omap_emif_set_device_details''
                [I 2, Ref ''lpddr2_elpida_4G_S4_x2_info'', Ref ''lpddr2_elpida_4G_S4_timings'',
                 I (lpddr2_elpida_4G_S4_timings_size H), Ref ''lpddr2_elpida_S4_min_tck'',
                 Ref ''custom_configs''] s;
          s = call ''omap_register_mac_device_fixup_paths''
                [Ref ''omap5evm_fixup_mac_device_paths'',
                 I (ARRAY_SIZE omap5evm_fixup_mac_device_paths)] s;
          s = call ''omap_serial_board_init'' [Null, I 2] s;
          s = call ''omap_serial_board_init'' [Null, I 4] s;
          s = call ''omap_sdrc_init'' [Null, Null] s;
          s = call ''omap_hsmmc_init'' [Ref ''mmc''] s;
          s = call ''i2c_register_board_info''
                [I 0, Ref ''hdmi_i2c_eeprom'', I (ARRAY_SIZE (hdmi_i2c_eeprom H))] s;
          s = call ''platform_device_register'' [Ref ''hdmi_edid_device''] s;
          s = omap_ehci_ohci_init E s;
          s = call ''platform_add_devices''
                [Ref ''omap5evm_devices'', I (ARRAY_SIZE omap5evm_devices)] s
      in omap5evm_display_init E s)"

text \<open>
  \<open>omap5evm_sensor_init\<close> is defined in another file of the board support; here it is a call
  like those into the kernel.
\<close>

definition omap_5430_sevm_init :: "env \<Rightarrow> board \<Rightarrow> board" where
  "omap_5430_sevm_init E s =
     (let s = pr_info ''Starting 5430 sEVM setup\<newline>'' [] s;
          s = call ''omap_mux_init_array''
                [Ref ''omap5432_sevm_mux'', I (ARRAY_SIZE (omap5432_sevm_mux (hdr E)))] s;
          s = call ''omap_writel'' [W 0x50000000, W 0x4A002E20] s;
          (_, s) = omap5evm_touch_init E s;
          s = call ''omap5evm_sensor_init'' [] s;
          s = omap54xx_common_init E s;
          (status, s) = omap4_keyboard_init E s;
          s = (if status \<noteq> 0
               then pr_err ''Keypad initialization failed: %d\<newline>'' [I status] s
               else s);
          s = call ''omap_writel'' [W 0x50000000, W 0x4A002E20] s
      in call ''omap_rprm_regulator_init''
           [Ref ''omap5evm_rprm_regulators'', I (ARRAY_SIZE omap5evm_rprm_regulators)] s)"

text \<open>
  The array \<open>mmc\<close> has four elements and \<open>reset_gpio_port\<close> three, so the constant indices
  of the assignments are in range; a list update leaves a shorter list as it is.
\<close>

definition omap_5432_uevm_init :: "env \<Rightarrow> board \<Rightarrow> board" where
  "omap_5432_uevm_init E s =
     (let s = pr_info ''Starting 5432 uEVM setup'' [] s;
          s = s\<lparr>mmc := (mmc s)[1 := (mmc s ! 1)\<lparr>gpio_cd := 152\<rparr>]\<rparr>;
          s = s\<lparr>usbhs_bdata := (usbhs_bdata s)
                  \<lparr>reset_gpio_port :=
                     (reset_gpio_port (usbhs_bdata s))[1 := GPIO_HUB_NRESET_UEVM]\<rparr>\<rparr>;
          s = s\<lparr>usbhs_bdata := (usbhs_bdata s)
                  \<lparr>reset_gpio_port :=
                     (reset_gpio_port (usbhs_bdata s))[2 := GPIO_ETH_NRESET_UEVM]\<rparr>\<rparr>;
          s = call ''omap_mux_init_array''
                [Ref ''omap5432_uevm_mux'', I (ARRAY_SIZE (omap5432_uevm_mux (hdr E)))] s;
          (phy_ref_clk, s) = clk_get E ''auxclk1_ck'' s;
          s = (if IS_ERR (hdr E) phy_ref_clk
               then pr_err ''Cannot request auxclk1\<newline>'' [] s
               else (let s = call ''clk_set_rate'' [P phy_ref_clk, I 19200000] s
                     in call ''clk_enable'' [P phy_ref_clk] s));
          s = s\<lparr>gpio_wlan_irq := 14\<rparr>;
          s = s\<lparr>twl6040_data := (twl6040_data s)\<lparr>audpwron_gpio := 141\<rparr>\<rparr>
      in omap54xx_common_init E s)"

subsection \<open>Selecting the board variant\<close>

definition NUL :: char where
  "NUL = CHR 0x00"

text \<open>
  Modelled from the spec: \<open>strcmp\<close> is a library function of the kernel, defined outside
  the board file; the spec says that the variant is selected "by comparing a device-tree
  model string". The comparison is that of C strings: byte by byte, as unsigned values, up
  to and including the first NUL. A list that ends without a NUL is read as if a NUL
  followed it.
\<close>

fun strcmp :: "string \<Rightarrow> string \<Rightarrow> int" where
  "strcmp [] [] = 0"
| "strcmp [] (c2 # ct) = (if c2 = NUL then 0 else - 1)"
| "strcmp (c1 # cs) [] = (if c1 = NUL then 0 else 1)"
| "strcmp (c1 # cs) (c2 # ct) =
     (if c1 \<noteq> c2 then (if (of_char c1 :: nat) < of_char c2 then - 1 else 1)
      else if c1 = NUL then 0
      else strcmp cs ct)"

text \<open>The C string that a buffer holds: its bytes before the first NUL.\<close>

definition cstr :: "string \<Rightarrow> string" where
  "cstr buf = takeWhile (\<lambda>c. c \<noteq> NUL) buf"

text \<open>
  \<open>dt_selected_model\<close> is an external array of 64 characters that the device-tree code fills
  in; the init function takes its content as an argument. \<open>board_mux\<close> is a table when
  \<open>CONFIG_OMAP_MUX\<close> is set and the null pointer otherwise.
\<close>

definition omap_54xx_init :: "env \<Rightarrow> string \<Rightarrow> board \<Rightarrow> board" where
  "omap_54xx_init E dt_selected_model s =
     (let s = call ''omap5_mux_init''
                [if CONFIG_OMAP_MUX (config E) then Ref ''board_mux'' else Null, Null,
                 W (OMAP_PACKAGE_CBL (hdr E))] s
      in if strcmp dt_selected_model ''TI OMAP5 uEVM'' = 0
         then omap_5432_uevm_init E s
         else omap_5430_sevm_init E s)"

section \<open>Describing what the init functions do\<close>

text \<open>
  The definitions of this section are not part of the board file. They describe the effect of
  the init functions in a form that can be read off: the events a function appends to the
  trace, as a list, and the statics it leaves behind. The lemmas of the next section prove
  that the functions above do what these descriptions say.
\<close>

subsection \<open>Observing a trace\<close>

fun is_call :: "event \<Rightarrow> bool" where
  "is_call (Call f args) = True"
| "is_call (Log lvl fmt args) = False"

fun is_log :: "event \<Rightarrow> bool" where
  "is_log (Call f args) = False"
| "is_log (Log lvl fmt args) = True"

fun is_call_to :: "string \<Rightarrow> event \<Rightarrow> bool" where
  "is_call_to f (Call g args) = (f = g)"
| "is_call_to f (Log lvl fmt args) = False"

text \<open>The events appended between a board \<open>s\<close> and a later board \<open>s'\<close>.\<close>

definition emitted :: "board \<Rightarrow> board \<Rightarrow> event list" where
  "emitted s s' = drop (length (trace s)) (trace s')"

text \<open>
  A message that is logged when a return value is not zero, and one that is logged when a
  pointer is null.
\<close>

definition on_failure :: "int \<Rightarrow> event \<Rightarrow> event list" where
  "on_failure r e = (if r \<noteq> 0 then [e] else [])"

definition on_null :: "ptr \<Rightarrow> event \<Rightarrow> event list" where
  "on_null h e = (if h \<noteq> NULL then [] else [e])"

subsection \<open>I2C buses and hardware spinlocks\<close>

text \<open>The handle that \<open>omap_i2c_hwspinlock_init\<close> obtains for a lock id.\<close>

definition requested_handle :: "env \<Rightarrow> int \<Rightarrow> ptr" where
  "requested_handle E spinlock_id =
     (if spinlock_id < 0 then hwspin_lock_request_ret (kernel E)
      else hwspin_lock_request_specific_ret (kernel E) spinlock_id)"

text \<open>
  A bus structure after \<open>omap_i2c_hwspinlock_init\<close> with a lock id that is not negative, and
  the events of that call.
\<close>

definition bus_pdata_after ::
  "env \<Rightarrow> int \<Rightarrow> omap_i2c_bus_board_data \<Rightarrow> omap_i2c_bus_board_data" where
  "bus_pdata_after E lock_id pdata =
     (if hwspin_lock_request_specific_ret (kernel E) lock_id \<noteq> NULL
      then pdata\<lparr>handle := hwspin_lock_request_specific_ret (kernel E) lock_id,
                 hwspin_lock_timeout := Ref ''hwspin_lock_timeout'',
                 hwspin_unlock := Ref ''hwspin_unlock''\<rparr>
      else pdata\<lparr>handle := NULL\<rparr>)"

definition hwspinlock_events :: "env \<Rightarrow> int \<Rightarrow> int \<Rightarrow> event list" where
  "hwspinlock_events E bus_id lock_id =
     Call ''hwspin_lock_request_specific'' [I lock_id] #
     on_null (hwspin_lock_request_specific_ret (kernel E) lock_id)
       (Log KERN_ERR ''I2C hwspinlock request failed for bus %d\<newline>'' [I bus_id])"

definition i2c_register_calls :: "env \<Rightarrow> event list" where
  "i2c_register_calls E =
     [Call ''omap_register_i2c_bus_board_data'' [I 1, Ref ''sdp4430_i2c_1_bus_pdata''],
      Call ''omap_register_i2c_bus_board_data'' [I 2, Ref ''sdp4430_i2c_2_bus_pdata''],
      Call ''omap_register_i2c_bus_board_data'' [I 3, Ref ''sdp4430_i2c_3_bus_pdata''],
      Call ''omap_register_i2c_bus_board_data'' [I 4, Ref ''sdp4430_i2c_4_bus_pdata''],
      Call ''omap_register_i2c_bus_board_data'' [I 5, Ref ''sdp4430_i2c_5_bus_pdata''],
      Call ''omap_register_i2c_bus''
        (if CONFIG_OMAP5_SEVM_PALMAS (config E)
         then [I 1, I 400, Ref ''omap5evm_i2c_1_boardinfo'', I 2]
         else [I 1, I 400, Null, I 0]),
      Call ''omap_register_i2c_bus'' [I 2, I 400, Null, I 0],
      Call ''omap_register_i2c_bus'' [I 3, I 400, Null, I 0],
      Call ''omap_register_i2c_bus'' [I 4, I 400, Null, I 0],
      Call ''omap_register_i2c_bus'' [I 5, I 400, Ref ''omap5evm_i2c_5_boardinfo'', I 2]]"

definition i2c_init_events :: "env \<Rightarrow> event list" where
  "i2c_init_events E =
     hwspinlock_events E 1 0 @ hwspinlock_events E 2 1 @ hwspinlock_events E 3 2 @
     hwspinlock_events E 4 3 @ hwspinlock_events E 5 4 @ i2c_register_calls E"

definition i2c_init_statics :: "env \<Rightarrow> board \<Rightarrow> board" where
  "i2c_init_statics E s =
     s\<lparr>sdp4430_i2c_1_bus_pdata := bus_pdata_after E 0 (sdp4430_i2c_1_bus_pdata s),
       sdp4430_i2c_2_bus_pdata := bus_pdata_after E 1 (sdp4430_i2c_2_bus_pdata s),
       sdp4430_i2c_3_bus_pdata := bus_pdata_after E 2 (sdp4430_i2c_3_bus_pdata s),
       sdp4430_i2c_4_bus_pdata := bus_pdata_after E 3 (sdp4430_i2c_4_bus_pdata s),
       sdp4430_i2c_5_bus_pdata := bus_pdata_after E 4 (sdp4430_i2c_5_bus_pdata s)\<rparr>"

subsection \<open>Touch screen, WLAN, display\<close>

definition touch_init_events :: "event list" where
  "touch_init_events =
     [Call ''gpio_request'' [I 179, S ''atmel touch irq''],
      Call ''gpio_direction_input'' [I 179],
      Call ''gpio_request'' [I 230, S ''atmel reset''],
      Call ''gpio_direction_output'' [I 230, I 1],
      Call ''mdelay'' [I 100],
      Call ''gpio_direction_output'' [I 230, I 0],
      Call ''mdelay'' [I 100],
      Call ''gpio_direction_output'' [I 230, I 1]]"

definition wifi_init_events :: "env \<Rightarrow> int \<Rightarrow> wl12xx_platform_data \<Rightarrow> event list" where
  "wifi_init_events E g wd =
     [Call ''omap_mux_init_gpio''
        [I g, W (OMAP_PIN_INPUT (hdr E) OR OMAP_PIN_OFF_WAKEUPENABLE (hdr E))],
      Call ''omap_mux_init_gpio'' [I 140, W (OMAP_PIN_OUTPUT (hdr E))],
      Call ''omap_mux_init_signal''
        [S ''wlsdio_cmd.wlsdio_cmd'', W (OMAP_MUX_MODE0 (hdr E) OR OMAP_PIN_INPUT_PULLUP (hdr E))],
      Call ''omap_mux_init_signal''
        [S ''wlsdio_clk.wlsdio_clk'', W (OMAP_MUX_MODE0 (hdr E) OR OMAP_PIN_INPUT_PULLUP (hdr E))],
      Call ''omap_mux_init_signal''
        [S ''wlsdio_data0.wlsdio_data0'',
         W (OMAP_MUX_MODE0 (hdr E) OR OMAP_PIN_INPUT_PULLUP (hdr E))],
      Call ''omap_mux_init_signal''
        [S ''wlsdio_data1.wlsdio_data1'',
         W (OMAP_MUX_MODE0 (hdr E) OR OMAP_PIN_INPUT_PULLUP (hdr E))],
      Call ''omap_mux_init_signal''
        [S ''wlsdio_data2.wlsdio_data2'',
         W (OMAP_MUX_MODE0 (hdr E) OR OMAP_PIN_INPUT_PULLUP (hdr E))],
      Call ''omap_mux_init_signal''
        [S ''wlsdio_data3.wlsdio_data3'',
         W (OMAP_MUX_MODE0 (hdr E) OR OMAP_PIN_INPUT_PULLUP (hdr E))],
      Call ''gpio_request_one'' [I g, W (GPIOF_IN (hdr E)), S ''wlan'']] @
     on_failure (gpio_request_one_ret (kernel E) g (GPIOF_IN (hdr E)) ''wlan'')
       (Log KERN_INFO ''wlan: IRQ gpio request failure in board file\<newline>'' []) @
     [Call ''wl12xx_set_platform_data'' [Ref ''omap5_sdp5430_wlan_data'']] @
     on_failure (wl12xx_set_platform_data_ret (kernel E) (wd\<lparr>irq := OMAP_GPIO_IRQ (hdr E) g\<rparr>))
       (Log KERN_ERR ''Error setting wl12xx data\<newline>'' []) @
     [Call ''platform_device_register'' [Ref ''omap_vwlan_device'']]"

definition display_init_events :: "env \<Rightarrow> event list" where
  "display_init_events E =
     [Call ''gpio_request_one'' [I 183, W (GPIOF_DIR_OUT (hdr E)), S ''lcd1_reset_gpio'']] @
     on_failure (gpio_request_one_ret (kernel E) 183 (GPIOF_DIR_OUT (hdr E)) ''lcd1_reset_gpio'')
       (Log KERN_ERR ''%s: Could not get lcd1_reset_gpio\<newline>'' [S ''omap5evm_lcd_init'']) @
     [Call ''gpio_request_one'' [I 193, W (GPIOF_DIR_IN (hdr E)), S ''hdmi_gpio_hpd'']] @
     on_failure (gpio_request_one_ret (kernel E) 193 (GPIOF_DIR_IN (hdr E)) ''hdmi_gpio_hpd'')
       (Log KERN_ERR ''%s: Could not get HDMI\<newline>'' [S ''omap5evm_hdmi_init'']) @
     [Call ''gpio_request_one'' [I 257, W (GPIOF_OUT_INIT_HIGH (hdr E)), S ''HDMI_HPD_EN'']] @
     on_failure (gpio_request_one_ret (kernel E) 257 (GPIOF_OUT_INIT_HIGH (hdr E)) ''HDMI_HPD_EN'')
       (Log KERN_ERR ''Failed to get HDMI HPD EN GPIO\<newline>'' []) @
     [Call ''omap_hdmi_init'' [I 0],
      Call ''omap_display_init'' [Ref ''omap5evm_dss_data'']]"

subsection \<open>The common part and the two variants\<close>

text \<open>
  The WLAN platform data after the common part, for the WLAN interrupt line \<open>g\<close>: its member
  \<open>irq\<close> is assigned when the WLAN support is configured.
\<close>

definition wlan_data_after :: "env \<Rightarrow> int \<Rightarrow> wl12xx_platform_data \<Rightarrow> wl12xx_platform_data" where
  "wlan_data_after E g wd =
     (if CONFIG_WL12XX_PLATFORM_DATA (config E) then wd\<lparr>irq := OMAP_GPIO_IRQ (hdr E) g\<rparr> else wd)"

definition common_init_statics :: "env \<Rightarrow> board \<Rightarrow> board" where
  "common_init_statics E s =
     (i2c_init_statics E s)
       \<lparr>omap5_sdp5430_wlan_data :=
          wlan_data_after E (gpio_wlan_irq s) (omap5_sdp5430_wlan_data s)\<rparr>"

definition common_init_events :: "env \<Rightarrow> int \<Rightarrow> wl12xx_platform_data \<Rightarrow> event list" where
  "common_init_events E g wd =
     [Call ''omap_mux_init_array'' [Ref ''omap5432_common_mux'', I 15]] @
     i2c_init_events E @
     (if CONFIG_WL12XX_PLATFORM_DATA (config E) then wifi_init_events E g wd else []) @
     [Call ''omap_emif_set_device_details''
        [I 1, Ref ''lpddr2_elpida_4G_S4_x2_info'', Ref ''lpddr2_elpida_4G_S4_timings'',
         I (lpddr2_elpida_4G_S4_timings_size (hdr E)), Ref ''lpddr2_elpida_S4_min_tck'',
         Ref ''custom_configs''],
      Call ''omap_emif_set_device_details''
        [I 2, Ref ''lpddr2_elpida_4G_S4_x2_info'', Ref ''lpddr2_elpida_4G_S4_timings'',
         I (lpddr2_elpida_4G_S4_timings_size (hdr E)), Ref ''lpddr2_elpida_S4_min_tck'',
         Ref ''custom_configs''],
      Call ''omap_register_mac_device_fixup_paths'' [Ref ''omap5evm_fixup_mac_device_paths'', I 2],
      Call ''omap_serial_board_init'' [Null, I 2],
      Call ''omap_serial_board_init'' [Null, I 4],
      Call ''omap_sdrc_init'' [Null, Null],
      Call ''omap_hsmmc_init'' [Ref ''mmc''],
      Call ''i2c_register_board_info'' [I 0, Ref ''hdmi_i2c_eeprom'', I 1],
      Call ''platform_device_register'' [Ref ''hdmi_edid_device''],
      Call ''usbhs_init'' [Ref ''usbhs_bdata''],
      Call ''platform_add_devices'' [Ref ''omap5evm_devices'', I 4]] @
     display_init_events E"

definition sevm_init_events :: "env \<Rightarrow> int \<Rightarrow> wl12xx_platform_data \<Rightarrow> event list" where
  "sevm_init_events E g wd =
     [Log KERN_INFO ''Starting 5430 sEVM setup\<newline>'' [],
      Call ''omap_mux_init_array'' [Ref ''omap5432_sevm_mux'', I 2],
      Call ''omap_writel'' [W 0x50000000, W 0x4A002E20]] @
     touch_init_events @
     [Call ''omap5evm_sensor_init'' []] @
     common_init_events E g wd @
     [Call ''omap4_keyboard_init'' [Ref ''evm5430_keypad_data'', Ref ''keypad_data'']] @
     on_failure (omap4_keyboard_init_ret (kernel E))
       (Log KERN_ERR ''Keypad initialization failed: %d\<newline>''
          [I (omap4_keyboard_init_ret (kernel E))]) @
     [Call ''omap_writel'' [W 0x50000000, W 0x4A002E20],
      Call ''omap_rprm_regulator_init'' [Ref ''omap5evm_rprm_regulators'', I 2]]"

definition clk_events :: "env \<Rightarrow> event list" where
  "clk_events E =
     Call ''clk_get'' [Null, S ''auxclk1_ck''] #
     (if IS_ERR (hdr E) (clk_get_ret (kernel E) ''auxclk1_ck'')
      then [Log KERN_ERR ''Cannot request auxclk1\<newline>'' []]
      else [Call ''clk_set_rate'' [P (clk_get_ret (kernel E) ''auxclk1_ck''), I 19200000],
            Call ''clk_enable'' [P (clk_get_ret (kernel E) ''auxclk1_ck'')]])"

text \<open>The assignments of \<open>omap_5432_uevm_init\<close> to the statics.\<close>

definition uevm_overrides :: "board \<Rightarrow> board" where
  "uevm_overrides s =
     s\<lparr>gpio_wlan_irq := 14,
       mmc := (mmc s)[1 := (mmc s ! 1)\<lparr>gpio_cd := 152\<rparr>],
       usbhs_bdata := (usbhs_bdata s)
         \<lparr>reset_gpio_port := (reset_gpio_port (usbhs_bdata s))[1 := 80, 2 := 15]\<rparr>,
       twl6040_data := (twl6040_data s)\<lparr>audpwron_gpio := 141\<rparr>\<rparr>"

definition uevm_init_events :: "env \<Rightarrow> wl12xx_platform_data \<Rightarrow> event list" where
  "uevm_init_events E wd =
     [Log KERN_INFO ''Starting 5432 uEVM setup'' [],
      Call ''omap_mux_init_array'' [Ref ''omap5432_uevm_mux'', I 18]] @
     clk_events E @
     common_init_events E 14 wd"

definition mux_init_call :: "env \<Rightarrow> event" where
  "mux_init_call E =
     Call ''omap5_mux_init''
       [if CONFIG_OMAP_MUX (config E) then Ref ''board_mux'' else Null, Null,
        W (OMAP_PACKAGE_CBL (hdr E))]"

text \<open>
  The log messages of the common part, in order: one per hardware spinlock that could not be
  obtained, the two of the WLAN setup, and one per display GPIO that could not be requested.
\<close>

definition common_init_logs :: "env \<Rightarrow> int \<Rightarrow> wl12xx_platform_data \<Rightarrow> event list" where
  "common_init_logs E g wd =
     on_null (hwspin_lock_request_specific_ret (kernel E) 0)
       (Log KERN_ERR ''I2C hwspinlock request failed for bus %d\<newline>'' [I 1]) @
     on_null (hwspin_lock_request_specific_ret (kernel E) 1)
       (Log KERN_ERR ''I2C hwspinlock request failed for bus %d\<newline>'' [I 2]) @
     on_null (hwspin_lock_request_specific_ret (kernel E) 2)
       (Log KERN_ERR ''I2C hwspinlock request failed for bus %d\<newline>'' [I 3]) @
     on_null (hwspin_lock_request_specific_ret (kernel E) 3)
       (Log KERN_ERR ''I2C hwspinlock request failed for bus %d\<newline>'' [I 4]) @
     on_null (hwspin_lock_request_specific_ret (kernel E) 4)
       (Log KERN_ERR ''I2C hwspinlock request failed for bus %d\<newline>'' [I 5]) @
     (if CONFIG_WL12XX_PLATFORM_DATA (config E)
      then on_failure (gpio_request_one_ret (kernel E) g (GPIOF_IN (hdr E)) ''wlan'')
             (Log KERN_INFO ''wlan: IRQ gpio request failure in board file\<newline>'' []) @
           on_failure
             (wl12xx_set_platform_data_ret (kernel E) (wd\<lparr>irq := OMAP_GPIO_IRQ (hdr E) g\<rparr>))
             (Log KERN_ERR ''Error setting wl12xx data\<newline>'' [])
      else []) @
     on_failure (gpio_request_one_ret (kernel E) 183 (GPIOF_DIR_OUT (hdr E)) ''lcd1_reset_gpio'')
       (Log KERN_ERR ''%s: Could not get lcd1_reset_gpio\<newline>'' [S ''omap5evm_lcd_init'']) @
     on_failure (gpio_request_one_ret (kernel E) 193 (GPIOF_DIR_IN (hdr E)) ''hdmi_gpio_hpd'')
       (Log KERN_ERR ''%s: Could not get HDMI\<newline>'' [S ''omap5evm_hdmi_init'']) @
     on_failure (gpio_request_one_ret (kernel E) 257 (GPIOF_OUT_INIT_HIGH (hdr E)) ''HDMI_HPD_EN'')
       (Log KERN_ERR ''Failed to get HDMI HPD EN GPIO\<newline>'' [])"

text \<open>The events that concern the reference clock of the uEVM.\<close>

fun clk_related :: "event \<Rightarrow> bool" where
  "clk_related (Call f args) = (f \<in> {''clk_get'', ''clk_set_rate'', ''clk_enable''})"
| "clk_related (Log lvl fmt args) = (fmt = ''Cannot request auxclk1\<newline>'')"

text \<open>
  An environment in which the GPIO requests and the keypad registration return other values,
  and nothing else differs.
\<close>

definition with_gpio_results ::
  "env \<Rightarrow> (int \<Rightarrow> string \<Rightarrow> int) \<Rightarrow> (int \<Rightarrow> 32 word \<Rightarrow> string \<Rightarrow> int) \<Rightarrow> int \<Rightarrow> env" where
  "with_gpio_results E g g1 k =
     E\<lparr>kernel := (kernel E)\<lparr>gpio_request_ret := g, gpio_request_one_ret := g1,
                             omap4_keyboard_init_ret := k\<rparr>\<rparr>"

subsection \<open>Regulator constraints\<close>

text \<open>
  An operations mask contains a flag when all bits of the flag are set in it. A regulator is
  in order when its voltage range is not empty and voltage changes are allowed exactly when
  the range is more than a single value.
\<close>

definition contains_op :: "32 word \<Rightarrow> 32 word \<Rightarrow> bool" where
  "contains_op ops flag = (ops AND flag = flag)"

definition regulator_ok :: "hdr \<Rightarrow> regulator_init_data \<Rightarrow> bool" where
  "regulator_ok H r =
     (min_uV (constraints r) \<le> max_uV (constraints r) \<and>
      contains_op (valid_ops_mask (constraints r)) (REGULATOR_CHANGE_VOLTAGE H) =
        (min_uV (constraints r) < max_uV (constraints r)))"

text \<open>
  The values of the \<open>REGULATOR_CHANGE\<close> flags come from a kernel header. What is assumed
  of them: the voltage flag is not zero and shares no bit with the mode flag or
  with the status flag.
\<close>

definition change_ops_distinct :: "hdr \<Rightarrow> bool" where
  "change_ops_distinct H =
     (REGULATOR_CHANGE_VOLTAGE H \<noteq> 0 \<and>
      REGULATOR_CHANGE_MODE H AND REGULATOR_CHANGE_VOLTAGE H = 0 \<and>
      REGULATOR_CHANGE_STATUS H AND REGULATOR_CHANGE_VOLTAGE H = 0)"

text \<open>The entries of \<open>palmas_omap5_reg\<close> that are not \<open>NULL\<close>.\<close>

definition palmas_regulators :: "hdr \<Rightarrow> regulator_init_data list" where
  "palmas_regulators H = List.map_filter (\<lambda>entry. entry) (palmas_omap5_reg H)"

subsection \<open>A sample host\<close>

text \<open>
  One choice of header constants, kernel answers and configuration, on which the functions
  can be evaluated. In \<open>sample_kernel\<close> every request succeeds.
\<close>

definition sample_hdr :: hdr where
  "sample_hdr =
     \<lparr>EINVAL = 22,
      MMC_CAP_4_BIT_DATA = 0x1,
      MMC_CAP_8_BIT_DATA = 0x40,
      MMC_CAP_1_8V_DDR = 0x800,
      MMC_CAP_UHS_SDR12 = 0x8000,
      MMC_CAP_UHS_SDR25 = 0x10000,
      MMC_CAP_UHS_DDR50 = 0x80000,
      MMC_CAP_POWER_OFF_CARD = 0x2000,
      MMC_VDD_29_30 = 0x20000,
      MMC_VDD_165_195 = 0x80,
      REGULATOR_CHANGE_VOLTAGE = 0x1,
      REGULATOR_CHANGE_MODE = 0x4,
      REGULATOR_CHANGE_STATUS = 0x8,
      REGULATOR_MODE_NORMAL = 0x2,
      REGULATOR_MODE_STANDBY = 0x8,
      TWL6040_CODEC_IRQ_BASE = 380,
      OMAP44XX_IRQ_SYS_1N = 39,
      OMAP44XX_IRQ_SYS_2N = 151,
      OMAP_MAX_GPIO_LINES = 256,
      WL12XX_REFCLOCK_26 = 1,
      WL12XX_TCXOCLOCK_26 = 2,
      DDC_ADDR = 0x50,
      GPIOF_IN = 0x1,
      GPIOF_DIR_IN = 0x1,
      GPIOF_DIR_OUT = 0x0,
      GPIOF_OUT_INIT_HIGH = 0x2,
      OMAP_PIN_INPUT = 0x100,
      OMAP_PIN_INPUT_PULLUP = 0x118,
      OMAP_PIN_OUTPUT = 0x0,
      OMAP_PIN_OFF_WAKEUPENABLE = 0x4000,
      OMAP_MUX_MODE0 = 0x0,
      OMAP_MUX_MODE6 = 0x6,
      OMAP_PACKAGE_CBL = 0x2,
      OMAP_GPIO_IRQ = (\<lambda>nr. 160 + nr),
      IS_ERR = (\<lambda>p. 0xFFFFF001 \<le> p),
      lpddr2_elpida_4G_S4_timings_size = 4\<rparr>"

definition sample_kernel :: kernel where
  "sample_kernel =
     \<lparr>hwspin_lock_request_ret = 0xC0001000,
      hwspin_lock_request_specific_ret = (\<lambda>lock_id. 0xC0001000 + 0x40 * word_of_int lock_id),
      gpio_request_ret = (\<lambda>gpio label. 0),
      gpio_request_one_ret = (\<lambda>gpio flags label. 0),
      wl12xx_set_platform_data_ret = (\<lambda>wd. 0),
      omap4_keyboard_init_ret = 0,
      clk_get_ret = (\<lambda>con_id. 0xC0002000)\<rparr>"

definition sample_config :: config where
  "sample_config =
     \<lparr>CONFIG_OMAP5_SEVM_PALMAS = True, CONFIG_WL12XX_PLATFORM_DATA = True,
      CONFIG_OMAP_MUX = True\<rparr>"

definition sample_env :: env where
  "sample_env = \<lparr>hdr = sample_hdr, kernel = sample_kernel, config = sample_config\<rparr>"

text \<open>The touch interrupt line is taken: its request fails with \<open>-EBUSY\<close>.\<close>

definition touch_busy_env :: env where
  "touch_busy_env =
     sample_env\<lparr>kernel := sample_kernel
       \<lparr>gpio_request_ret := (\<lambda>gpio label. if gpio = 179 then - 16 else 0)\<rparr>\<rparr>"

section \<open>The init functions meet their descriptions\<close>

subsection \<open>Calls and conditional log messages\<close>

lemma call_nf: "call f a s = s\<lparr>trace := trace s @ [Call f a]\<rparr>"
  by (simp add: call_def emit_def)

lemma log_nf: "printk lvl fmt a s = s\<lparr>trace := trace s @ [Log lvl fmt a]\<rparr>"
  by (simp add: printk_def emit_def)

lemma log_on_failure:
  "(if r \<noteq> 0 then printk lvl fmt a s else s) =
     s\<lparr>trace := trace s @ on_failure r (Log lvl fmt a)\<rparr>"
  by (simp add: on_failure_def log_nf)

lemma pr_err_on_failure:
  "(if r \<noteq> 0 then pr_err fmt a s else s) =
     s\<lparr>trace := trace s @ on_failure r (Log KERN_ERR fmt a)\<rparr>"
  by (simp add: on_failure_def pr_err_def log_nf)

lemma emitted_nf [simp]: "emitted s (X\<lparr>trace := trace s @ evs\<rparr>) = evs"
  by (simp add: emitted_def)

lemma filter_on_failure:
  "filter Q (on_failure r e) = (if Q e then on_failure r e else [])"
  by (simp add: on_failure_def)

lemma filter_on_null:
  "filter Q (on_null h e) = (if Q e then on_null h e else [])"
  by (simp add: on_null_def)

lemma count_on_failure:
  "count_list (on_failure r e) x = (if e = x then length (on_failure r e) else 0)"
  by (simp add: on_failure_def)

lemma count_on_null:
  "count_list (on_null h e) x = (if e = x then length (on_null h e) else 0)"
  by (simp add: on_null_def)

subsection \<open>The parts of the common init\<close>

lemma hwspinlock_specific:
  "0 \<le> lock_id \<Longrightarrow>
   omap_i2c_hwspinlock_init E bus_id lock_id pdata s =
     (bus_pdata_after E lock_id pdata,
      s\<lparr>trace := trace s @ hwspinlock_events E bus_id lock_id\<rparr>)"
  by (simp add: omap_i2c_hwspinlock_init_def hwspin_lock_request_specific_def call_nf
      pr_err_def log_nf bus_pdata_after_def hwspinlock_events_def on_null_def)

lemma i2c_init_nf:
  "omap_5430evm_i2c_init E s =
     (0, (i2c_init_statics E s)\<lparr>trace := trace s @ i2c_init_events E\<rparr>)"
  by (cases "CONFIG_OMAP5_SEVM_PALMAS (config E)")
     (simp_all add: omap_5430evm_i2c_init_def hwspinlock_specific call_nf Let_def
        ARRAY_SIZE_def omap5evm_i2c_1_boardinfo_def omap5evm_i2c_5_boardinfo_def
        i2c_init_statics_def i2c_init_events_def i2c_register_calls_def)

lemma touch_init_nf:
  "omap5evm_touch_init E s = (0, s\<lparr>trace := trace s @ touch_init_events\<rparr>)"
  by (simp add: omap5evm_touch_init_def gpio_request_def call_nf Let_def touch_init_events_def
      OMAP5_TOUCH_IRQ_1_def OMAP5_TOUCH_RESET_def)

lemma wifi_init_nf:
  "omap5_sdp5430_wifi_init E s =
     s\<lparr>omap5_sdp5430_wlan_data :=
         (omap5_sdp5430_wlan_data s)\<lparr>irq := OMAP_GPIO_IRQ (hdr E) (gpio_wlan_irq s)\<rparr>,
       trace := trace s @ wifi_init_events E (gpio_wlan_irq s) (omap5_sdp5430_wlan_data s)\<rparr>"
  by (simp add: omap5_sdp5430_wifi_init_def omap5_sdp5430_wifi_mux_init_def
      gpio_request_one_def wl12xx_set_platform_data_def call_nf pr_err_on_failure log_on_failure
      Let_def wifi_init_events_def GPIO_WIFI_PMENA_def split del: if_split)

lemma display_init_nf:
  "omap5evm_display_init E s = s\<lparr>trace := trace s @ display_init_events E\<rparr>"
  by (simp add: omap5evm_display_init_def omap5evm_lcd_init_def omap5evm_hdmi_init_def
      gpio_request_one_def call_nf pr_err_on_failure Let_def display_init_events_def
      dsi_panel_def HDMI_GPIO_HPD_def HDMI_HPD_EN_GPIO_def split del: if_split)

lemma panel_enable_hdmi_nf:
  "omap5evm_panel_enable_hdmi E s =
     (0, s\<lparr>trace := trace s @
           [Log KERN_INFO ''omap5evm_panel_enable_hdmi\<newline>'' [],
            Call ''gpio_request_one''
              [I 257, W (GPIOF_OUT_INIT_HIGH (hdr E)), S ''HDMI_HPD_EN''],
            Call ''gpio_request_one''
              [I 256, W (GPIOF_OUT_INIT_HIGH (hdr E)), S ''HDMI_OE'']] @
           on_failure
             (gpio_request_one_ret (kernel E) 256 (GPIOF_OUT_INIT_HIGH (hdr E)) ''HDMI_OE'')
             (Log KERN_ERR ''Failed to get HDMI OE GPIO\<newline>'' [])\<rparr>)"
  by (simp add: omap5evm_panel_enable_hdmi_def gpio_request_one_def call_nf pr_info_def log_nf
      pr_err_on_failure Let_def HDMI_HPD_EN_GPIO_def HDMI_OE_GPIO_def split del: if_split)

lemma i2c_init_statics_fields [simp]:
  "gpio_wlan_irq (i2c_init_statics E s) = gpio_wlan_irq s"
  "omap5_sdp5430_wlan_data (i2c_init_statics E s) = omap5_sdp5430_wlan_data s"
  "trace (i2c_init_statics E s) = trace s"
  by (simp_all add: i2c_init_statics_def)

lemma i2c_init_statics_trace [simp]:
  "i2c_init_statics E (s\<lparr>trace := t\<rparr>) = (i2c_init_statics E s)\<lparr>trace := t\<rparr>"
  by (simp add: i2c_init_statics_def)

lemma common_init_nf:
  "omap54xx_common_init E s =
     (common_init_statics E s)
       \<lparr>trace := trace s @
          common_init_events E (gpio_wlan_irq s) (omap5_sdp5430_wlan_data s)\<rparr>"
  by (cases "CONFIG_WL12XX_PLATFORM_DATA (config E)")
     (simp_all add: omap54xx_common_init_def i2c_init_nf wifi_init_nf display_init_nf
        omap_ehci_ohci_init_def call_nf Let_def ARRAY_SIZE_def omap5432_common_mux_def
        omap5evm_fixup_mac_device_paths_def hdmi_i2c_eeprom_def omap5evm_devices_def
        common_init_statics_def common_init_events_def wlan_data_after_def)

lemma common_init_statics_fields [simp]:
  "trace (common_init_statics E s) = trace s"
  by (simp_all add: common_init_statics_def)

lemma common_init_statics_trace [simp]:
  "common_init_statics E (s\<lparr>trace := t\<rparr>) = (common_init_statics E s)\<lparr>trace := t\<rparr>"
  by (simp add: common_init_statics_def)

subsection \<open>The two variants and their selection\<close>

lemma sevm_init_nf:
  "omap_5430_sevm_init E s =
     (common_init_statics E s)
       \<lparr>trace := trace s @ sevm_init_events E (gpio_wlan_irq s) (omap5_sdp5430_wlan_data s)\<rparr>"
  by (simp add: omap_5430_sevm_init_def touch_init_nf common_init_nf omap4_keyboard_init_def
      call_nf pr_info_def log_nf pr_err_on_failure Let_def ARRAY_SIZE_def omap5432_sevm_mux_def
      omap5evm_rprm_regulators_def sevm_init_events_def split del: if_split)

lemma uevm_overrides_trace [simp]:
  "uevm_overrides (s\<lparr>trace := t\<rparr>) = (uevm_overrides s)\<lparr>trace := t\<rparr>"
  "trace (uevm_overrides s) = trace s"
  "gpio_wlan_irq (uevm_overrides s) = 14"
  "omap5_sdp5430_wlan_data (uevm_overrides s) = omap5_sdp5430_wlan_data s"
  by (simp_all add: uevm_overrides_def)

lemma uevm_init_nf:
  "omap_5432_uevm_init E s =
     (common_init_statics E (uevm_overrides s))
       \<lparr>trace := trace s @ uevm_init_events E (omap5_sdp5430_wlan_data s)\<rparr>"
  by (cases s; cases "IS_ERR (hdr E) (clk_get_ret (kernel E) ''auxclk1_ck'')")
     (simp_all add: omap_5432_uevm_init_def common_init_nf clk_get_def call_nf pr_info_def
        pr_err_def log_nf Let_def ARRAY_SIZE_def omap5432_uevm_mux_def uevm_init_events_def
        clk_events_def GPIO_HUB_NRESET_UEVM_def GPIO_ETH_NRESET_UEVM_def uevm_overrides_def
        common_init_statics_def i2c_init_statics_def)

lemma cstr_uevm: "cstr ''TI OMAP5 uEVM'' = ''TI OMAP5 uEVM''"
  by (simp add: cstr_def NUL_def)

lemma strcmp_eq_0_iff: "strcmp cs ct = 0 \<longleftrightarrow> cstr cs = cstr ct"
  by (induction cs ct rule: strcmp.induct) (auto simp: cstr_def)

lemma init_54xx_nf:
  "omap_54xx_init E m s =
     (if cstr m = ''TI OMAP5 uEVM''
      then (common_init_statics E (uevm_overrides s))
             \<lparr>trace := trace s @
                Call ''omap5_mux_init''
                  [if CONFIG_OMAP_MUX (config E) then Ref ''board_mux'' else Null, Null,
                   W (OMAP_PACKAGE_CBL (hdr E))] #
                uevm_init_events E (omap5_sdp5430_wlan_data s)\<rparr>
      else (common_init_statics E s)
             \<lparr>trace := trace s @
                Call ''omap5_mux_init''
                  [if CONFIG_OMAP_MUX (config E) then Ref ''board_mux'' else Null, Null,
                   W (OMAP_PACKAGE_CBL (hdr E))] #
                sevm_init_events E (gpio_wlan_irq s) (omap5_sdp5430_wlan_data s)\<rparr>)"
  by (simp add: omap_54xx_init_def strcmp_eq_0_iff cstr_uevm call_nf sevm_init_nf uevm_init_nf
      split del: if_split cong: if_cong)

lemmas events_defs = sevm_init_events_def uevm_init_events_def common_init_events_def
  i2c_init_events_def i2c_register_calls_def hwspinlock_events_def touch_init_events_def
  wifi_init_events_def display_init_events_def clk_events_def

lemma logs_common:
  "filter is_log (common_init_events E g wd) = common_init_logs E g wd"
  by (cases "CONFIG_WL12XX_PLATFORM_DATA (config E)")
     (simp_all add: events_defs common_init_logs_def filter_on_failure filter_on_null)

lemma logs_sevm:
  "filter is_log (sevm_init_events E g wd) =
     Log KERN_INFO ''Starting 5430 sEVM setup\<newline>'' [] # common_init_logs E g wd @
     on_failure (omap4_keyboard_init_ret (kernel E))
       (Log KERN_ERR ''Keypad initialization failed: %d\<newline>''
          [I (omap4_keyboard_init_ret (kernel E))])"
  by (simp add: sevm_init_events_def touch_init_events_def logs_common filter_on_failure)

lemma logs_uevm:
  "filter is_log (uevm_init_events E wd) =
     Log KERN_INFO ''Starting 5432 uEVM setup'' [] #
     (if IS_ERR (hdr E) (clk_get_ret (kernel E) ''auxclk1_ck'')
      then [Log KERN_ERR ''Cannot request auxclk1\<newline>'' []] else []) @
     common_init_logs E 14 wd"
  by (simp add: uevm_init_events_def clk_events_def logs_common)

subsection \<open>Operation flags\<close>

lemmas regulator_defs = omap5_smps12_def omap5_smps45_def omap5_smps6_def omap5_smps7_def
  omap5_smps8_def omap5_smps9_def omap5_smps10_def omap5_ldo1_def omap5_ldo2_def
  omap5_ldo3_def omap5_ldo4_def omap5_ldo5_def omap5_ldo6_def omap5_ldo7_def omap5_ldo8_def
  omap5_ldo9_def omap5_ldoln_def omap5_ldousb_def sdp5430_vmmc3_def
  regulator_init_data_zero_def regulation_constraints_zero_def

lemma contains_op_with:
  "contains_op (v OR m OR s) v"
  by (simp add: contains_op_def bit_eq_iff bit_and_iff bit_or_iff)

lemma contains_op_without:
  "v \<noteq> 0 \<Longrightarrow> m AND v = 0 \<Longrightarrow> s AND v = 0 \<Longrightarrow> \<not> contains_op (m OR s) v"
  by (simp add: contains_op_def bit.conj_disj_distrib2)

lemma contains_op_single:
  "v \<noteq> 0 \<Longrightarrow> s AND v = 0 \<Longrightarrow> \<not> contains_op s v"
  by (simp add: contains_op_def)

section \<open>Properties of the board file\<close>

text \<open>
  C1. The machine init selects the board variant by one two-way branch on the device-tree
  model string. For every model buffer \<open>m\<close>, \<open>omap_54xx_init\<close> continues as
  \<open>omap_5432_uevm_init\<close> if the C string in \<open>m\<close> is "TI OMAP5 uEVM" and as
  \<open>omap_5430_sevm_init\<close> otherwise. Exactly one of the two variants runs: the start message
  of the selected variant is logged once and that of the other variant never. Each variant
  runs the common init exactly once: its first call, the pin multiplexing of the common
  table, and its last call, the display init, each occur once.
\<close>

theorem board_variant_selection:
  "omap_54xx_init E m s =
     (if cstr m = ''TI OMAP5 uEVM''
      then omap_5432_uevm_init E (emit (mux_init_call E) s)
      else omap_5430_sevm_init E (emit (mux_init_call E) s)) \<and>
   count_list (emitted s (omap_54xx_init E m s)) (Log KERN_INFO ''Starting 5432 uEVM setup'' []) =
     (if cstr m = ''TI OMAP5 uEVM'' then 1 else 0) \<and>
   count_list (emitted s (omap_54xx_init E m s))
       (Log KERN_INFO ''Starting 5430 sEVM setup\<newline>'' []) =
     (if cstr m = ''TI OMAP5 uEVM'' then 0 else 1) \<and>
   count_list (emitted s (omap_54xx_init E m s))
       (Call ''omap_mux_init_array'' [Ref ''omap5432_common_mux'', I 15]) = 1 \<and>
   count_list (emitted s (omap_54xx_init E m s))
       (Call ''omap_display_init'' [Ref ''omap5evm_dss_data'']) = 1"
proof -
  have sel: "omap_54xx_init E m s =
     (if cstr m = ''TI OMAP5 uEVM''
      then omap_5432_uevm_init E (emit (mux_init_call E) s)
      else omap_5430_sevm_init E (emit (mux_init_call E) s))"
    by (simp add: omap_54xx_init_def strcmp_eq_0_iff cstr_uevm call_def mux_init_call_def)
  have cnt:
    "count_list (emitted s (omap_54xx_init E m s)) (Log KERN_INFO ''Starting 5432 uEVM setup'' []) =
       (if cstr m = ''TI OMAP5 uEVM'' then 1 else 0)"
    "count_list (emitted s (omap_54xx_init E m s))
         (Log KERN_INFO ''Starting 5430 sEVM setup\<newline>'' []) =
       (if cstr m = ''TI OMAP5 uEVM'' then 0 else 1)"
    "count_list (emitted s (omap_54xx_init E m s))
         (Call ''omap_mux_init_array'' [Ref ''omap5432_common_mux'', I 15]) = 1"
    "count_list (emitted s (omap_54xx_init E m s))
         (Call ''omap_display_init'' [Ref ''omap5evm_dss_data'']) = 1"
    by (cases "cstr m = ''TI OMAP5 uEVM''"; cases "CONFIG_WL12XX_PLATFORM_DATA (config E)";
        cases "IS_ERR (hdr E) (clk_get_ret (kernel E) ''auxclk1_ck'')";
        simp add: init_54xx_nf events_defs count_on_failure count_on_null)+
  from sel cnt show ?thesis by blast
qed

text \<open>
  C2, as amended. Starting from the statics as initialised, the uEVM path leaves
  \<open>mmc[1].gpio_cd = 152\<close>, \<open>usbhs_bdata.reset_gpio_port[1] = 80\<close>,
  \<open>usbhs_bdata.reset_gpio_port[2] = 15\<close>, \<open>gpio_wlan_irq = 14\<close> and
  \<open>twl6040_data.audpwron_gpio = 141\<close>; the sEVM path leaves these at 67, 173, 172, 9 and
  145. On both paths the common init writes further statics: the member \<open>irq\<close> of
  \<open>omap5_sdp5430_wlan_data\<close> (when the WLAN support is configured) and the handle and the
  two callbacks of the five I2C bus structures. Nothing else is written: the final statics
  are the initial ones with exactly these updates.
\<close>

theorem static_tables_after_init:
  "(omap_54xx_init E m (board_init (hdr E)))\<lparr>trace := []\<rparr> =
     (if cstr m = ''TI OMAP5 uEVM''
      then (board_init (hdr E))
        \<lparr>gpio_wlan_irq := 14,
         mmc := (mmc_init (hdr E))[1 := (mmc_init (hdr E) ! 1)\<lparr>gpio_cd := 152\<rparr>],
         usbhs_bdata := (usbhs_bdata_init (hdr E))
           \<lparr>reset_gpio_port := [- EINVAL (hdr E), 80, 15]\<rparr>,
         twl6040_data := (twl6040_data_init (hdr E))\<lparr>audpwron_gpio := 141\<rparr>,
         omap5_sdp5430_wlan_data :=
           wlan_data_after E 14 (omap5_sdp5430_wlan_data_init (hdr E)),
         sdp4430_i2c_1_bus_pdata := bus_pdata_after E 0 omap_i2c_bus_board_data_zero,
         sdp4430_i2c_2_bus_pdata := bus_pdata_after E 1 omap_i2c_bus_board_data_zero,
         sdp4430_i2c_3_bus_pdata := bus_pdata_after E 2 omap_i2c_bus_board_data_zero,
         sdp4430_i2c_4_bus_pdata := bus_pdata_after E 3 omap_i2c_bus_board_data_zero,
         sdp4430_i2c_5_bus_pdata := bus_pdata_after E 4 omap_i2c_bus_board_data_zero\<rparr>
      else (board_init (hdr E))
        \<lparr>omap5_sdp5430_wlan_data :=
           wlan_data_after E 9 (omap5_sdp5430_wlan_data_init (hdr E)),
         sdp4430_i2c_1_bus_pdata := bus_pdata_after E 0 omap_i2c_bus_board_data_zero,
         sdp4430_i2c_2_bus_pdata := bus_pdata_after E 1 omap_i2c_bus_board_data_zero,
         sdp4430_i2c_3_bus_pdata := bus_pdata_after E 2 omap_i2c_bus_board_data_zero,
         sdp4430_i2c_4_bus_pdata := bus_pdata_after E 3 omap_i2c_bus_board_data_zero,
         sdp4430_i2c_5_bus_pdata := bus_pdata_after E 4 omap_i2c_bus_board_data_zero\<rparr>) \<and>
   gpio_cd (mmc (omap_54xx_init E m (board_init (hdr E))) ! 1) =
     (if cstr m = ''TI OMAP5 uEVM'' then 152 else 67) \<and>
   reset_gpio_port (usbhs_bdata (omap_54xx_init E m (board_init (hdr E)))) ! 1 =
     (if cstr m = ''TI OMAP5 uEVM'' then 80 else 173) \<and>
   reset_gpio_port (usbhs_bdata (omap_54xx_init E m (board_init (hdr E)))) ! 2 =
     (if cstr m = ''TI OMAP5 uEVM'' then 15 else 172) \<and>
   gpio_wlan_irq (omap_54xx_init E m (board_init (hdr E))) =
     (if cstr m = ''TI OMAP5 uEVM'' then 14 else 9) \<and>
   audpwron_gpio (twl6040_data (omap_54xx_init E m (board_init (hdr E)))) =
     (if cstr m = ''TI OMAP5 uEVM'' then 141 else 145)"
  by (cases "cstr m = ''TI OMAP5 uEVM''")
     (simp_all add: init_54xx_nf common_init_statics_def i2c_init_statics_def
        uevm_overrides_def board_init_def mmc_init_def usbhs_bdata_init_def
        twl6040_data_init_def omap2_hsmmc_info_zero_def GPIO_HUB_NRESET_SEVM_def
        GPIO_ETH_NRESET_SEVM_def)

text \<open>
  C2 as stated does not hold. On the sEVM path of the sample host the member \<open>irq\<close> of the
  WLAN platform data changes from 0 to 169, and the structure of I2C bus 1 receives a lock
  handle and both callbacks.
\<close>

theorem static_tables_counterexample:
  "irq (omap5_sdp5430_wlan_data (board_init sample_hdr)) = 0 \<and>
   irq (omap5_sdp5430_wlan_data
          (omap_54xx_init sample_env ''TI OMAP5 sEVM'' (board_init sample_hdr))) = 169 \<and>
   sdp4430_i2c_1_bus_pdata (board_init sample_hdr) =
     \<lparr>handle = 0, hwspin_lock_timeout = Null, hwspin_unlock = Null\<rparr> \<and>
   sdp4430_i2c_1_bus_pdata
       (omap_54xx_init sample_env ''TI OMAP5 sEVM'' (board_init sample_hdr)) =
     \<lparr>handle = 0xC0001000, hwspin_lock_timeout = Ref ''hwspin_lock_timeout'',
      hwspin_unlock = Ref ''hwspin_unlock''\<rparr>"
  by (simp add: init_54xx_nf cstr_def NUL_def common_init_statics_def i2c_init_statics_def
      board_init_def wlan_data_after_def bus_pdata_after_def sample_env_def sample_hdr_def
      sample_kernel_def sample_config_def omap5_sdp5430_wlan_data_init_def
      omap_i2c_bus_board_data_zero_def NULL_def)

text \<open>
  C3, as amended. The log messages of the machine init are, in order: the start message of
  the variant; on the uEVM, the message for the reference clock if \<open>clk_get\<close> returned an
  error pointer; the messages of the common part, among them one for each \<open>gpio_request_one\<close>
  that returned a value other than zero; on the sEVM, the message for the keypad if
  \<open>omap4_keyboard_init\<close> returned a value other than zero, with that value as argument. The
  return values of the two \<open>gpio_request\<close> calls of the touch init appear nowhere.
  The calls made do not depend on what the GPIO requests and the keypad registration
  return: the init runs on after a failure. Nothing is retried: on the sEVM path there are
  two calls of \<open>gpio_request\<close>, one of \<open>omap4_keyboard_init\<close>, and three calls of
  \<open>gpio_request_one\<close>, or four with the WLAN support. The display callback
  \<open>omap5evm_panel_enable_hdmi\<close>, which the init does not call, logs its message for the
  HDMI output-enable line exactly when the request of that line returned a value other than
  zero.
\<close>

theorem init_failures_are_logged:
  "filter is_log (emitted s (omap_54xx_init E m s)) =
     (if cstr m = ''TI OMAP5 uEVM''
      then Log KERN_INFO ''Starting 5432 uEVM setup'' [] #
           (if IS_ERR (hdr E) (clk_get_ret (kernel E) ''auxclk1_ck'')
            then [Log KERN_ERR ''Cannot request auxclk1\<newline>'' []] else []) @
           common_init_logs E 14 (omap5_sdp5430_wlan_data s)
      else Log KERN_INFO ''Starting 5430 sEVM setup\<newline>'' [] #
           common_init_logs E (gpio_wlan_irq s) (omap5_sdp5430_wlan_data s) @
           on_failure (omap4_keyboard_init_ret (kernel E))
             (Log KERN_ERR ''Keypad initialization failed: %d\<newline>''
                [I (omap4_keyboard_init_ret (kernel E))])) \<and>
   filter is_call (emitted s (omap_54xx_init (with_gpio_results E g g1 k) m s)) =
     filter is_call (emitted s (omap_54xx_init E m s)) \<and>
   length (filter (is_call_to ''gpio_request'') (emitted s (omap_5430_sevm_init E s))) = 2 \<and>
   length (filter (is_call_to ''gpio_request_one'') (emitted s (omap_5430_sevm_init E s))) =
     (if CONFIG_WL12XX_PLATFORM_DATA (config E) then 4 else 3) \<and>
   length (filter (is_call_to ''omap4_keyboard_init'') (emitted s (omap_5430_sevm_init E s))) = 1 \<and>
   filter (\<lambda>e. e = Log KERN_ERR ''Failed to get HDMI OE GPIO\<newline>'' [])
       (emitted s (snd (omap5evm_panel_enable_hdmi E s))) =
     on_failure
       (gpio_request_one_ret (kernel E) HDMI_OE_GPIO (GPIOF_OUT_INIT_HIGH (hdr E)) ''HDMI_OE'')
       (Log KERN_ERR ''Failed to get HDMI OE GPIO\<newline>'' [])"
proof -
  have logs: "filter is_log (emitted s (omap_54xx_init E m s)) =
     (if cstr m = ''TI OMAP5 uEVM''
      then Log KERN_INFO ''Starting 5432 uEVM setup'' [] #
           (if IS_ERR (hdr E) (clk_get_ret (kernel E) ''auxclk1_ck'')
            then [Log KERN_ERR ''Cannot request auxclk1\<newline>'' []] else []) @
           common_init_logs E 14 (omap5_sdp5430_wlan_data s)
      else Log KERN_INFO ''Starting 5430 sEVM setup\<newline>'' [] #
           common_init_logs E (gpio_wlan_irq s) (omap5_sdp5430_wlan_data s) @
           on_failure (omap4_keyboard_init_ret (kernel E))
             (Log KERN_ERR ''Keypad initialization failed: %d\<newline>''
                [I (omap4_keyboard_init_ret (kernel E))]))"
    by (cases "cstr m = ''TI OMAP5 uEVM''") (simp_all add: init_54xx_nf logs_sevm logs_uevm)
  have calls: "filter is_call (emitted s (omap_54xx_init (with_gpio_results E g g1 k) m s)) =
     filter is_call (emitted s (omap_54xx_init E m s))"
    by (cases "cstr m = ''TI OMAP5 uEVM''"; cases "CONFIG_WL12XX_PLATFORM_DATA (config E)")
       (simp_all add: init_54xx_nf events_defs filter_on_failure filter_on_null
          with_gpio_results_def)
  have counts:
    "length (filter (is_call_to ''gpio_request'') (emitted s (omap_5430_sevm_init E s))) = 2"
    "length (filter (is_call_to ''gpio_request_one'') (emitted s (omap_5430_sevm_init E s))) =
       (if CONFIG_WL12XX_PLATFORM_DATA (config E) then 4 else 3)"
    "length (filter (is_call_to ''omap4_keyboard_init'') (emitted s (omap_5430_sevm_init E s))) = 1"
    by (cases "CONFIG_WL12XX_PLATFORM_DATA (config E)";
        simp add: sevm_init_nf events_defs filter_on_failure filter_on_null)+
  have panel:
    "filter (\<lambda>e. e = Log KERN_ERR ''Failed to get HDMI OE GPIO\<newline>'' [])
         (emitted s (snd (omap5evm_panel_enable_hdmi E s))) =
       on_failure
         (gpio_request_one_ret (kernel E) HDMI_OE_GPIO (GPIOF_OUT_INIT_HIGH (hdr E)) ''HDMI_OE'')
         (Log KERN_ERR ''Failed to get HDMI OE GPIO\<newline>'' [])"
    by (simp add: panel_enable_hdmi_nf filter_on_failure HDMI_OE_GPIO_def)
  from logs calls counts panel show ?thesis by blast
qed

text \<open>
  C3 as stated does not hold: when the request for the touch interrupt line fails with
  \<open>-16\<close> and every other call succeeds, the only message of the sEVM init is its start
  message. The failure leads to no log message.
\<close>

theorem init_failures_counterexample:
  "gpio_request_ret (kernel touch_busy_env) OMAP5_TOUCH_IRQ_1 ''atmel touch irq'' = - 16 \<and>
   filter is_log (emitted (board_init sample_hdr)
       (omap_54xx_init touch_busy_env ''TI OMAP5 sEVM'' (board_init sample_hdr))) =
     [Log KERN_INFO ''Starting 5430 sEVM setup\<newline>'' []]"
  by (simp add: init_54xx_nf logs_sevm common_init_logs_def on_failure_def on_null_def
      cstr_def NUL_def touch_busy_env_def sample_env_def sample_kernel_def sample_config_def
      OMAP5_TOUCH_IRQ_1_def NULL_def)

text \<open>
  C4, as amended. \<open>omap5evm_touch_init\<close> returns 0 whatever its two \<open>gpio_request\<close> calls
  return. It makes the same eight calls in every case and logs nothing.
\<close>

theorem touch_init_returns_zero:
  "fst (omap5evm_touch_init E s) = 0 \<and>
   emitted s (snd (omap5evm_touch_init E s)) =
     [Call ''gpio_request'' [I 179, S ''atmel touch irq''],
      Call ''gpio_direction_input'' [I 179],
      Call ''gpio_request'' [I 230, S ''atmel reset''],
      Call ''gpio_direction_output'' [I 230, I 1],
      Call ''mdelay'' [I 100],
      Call ''gpio_direction_output'' [I 230, I 0],
      Call ''mdelay'' [I 100],
      Call ''gpio_direction_output'' [I 230, I 1]]"
  by (simp add: touch_init_nf touch_init_events_def)

text \<open>
  C4 as stated does not hold: the request for the touch interrupt line (GPIO 179) fails
  with \<open>-16\<close>, and \<open>omap5evm_touch_init\<close> returns 0.
\<close>

theorem touch_init_counterexample:
  "gpio_request_ret (kernel touch_busy_env) OMAP5_TOUCH_IRQ_1 ''atmel touch irq'' = - 16 \<and>
   fst (omap5evm_touch_init touch_busy_env (board_init sample_hdr)) = 0"
  by (simp add: touch_init_nf touch_busy_env_def sample_env_def OMAP5_TOUCH_IRQ_1_def)

text \<open>
  C5. \<open>omap_5430evm_i2c_init\<close> returns 0 and makes a fixed sequence of calls: the requests
  of the hardware spinlocks 0 to 4, the registration of the board data of buses 1 to 5, and
  the registration of buses 1 to 5 at 400 kHz. Bus 1 is registered with the table
  \<open>omap5evm_i2c_1_boardinfo\<close> (twl6035 at 0x48 and twl6040 at 0x4b) when
  \<open>CONFIG_OMAP5_SEVM_PALMAS\<close> is set and with no table otherwise, buses 2 to 4 with no
  table, bus 5 with the two entries smsc at 0x38 and tca6424 at 0x22. The only log
  messages are those for the spinlocks that could not be obtained; lock \<open>n - 1\<close> belongs to
  bus \<open>n\<close>.
\<close>

theorem i2c_init_fixed_sequence:
  "fst (omap_5430evm_i2c_init E s) = 0 \<and>
   filter is_call (emitted s (snd (omap_5430evm_i2c_init E s))) =
     [Call ''hwspin_lock_request_specific'' [I 0],
      Call ''hwspin_lock_request_specific'' [I 1],
      Call ''hwspin_lock_request_specific'' [I 2],
      Call ''hwspin_lock_request_specific'' [I 3],
      Call ''hwspin_lock_request_specific'' [I 4],
      Call ''omap_register_i2c_bus_board_data'' [I 1, Ref ''sdp4430_i2c_1_bus_pdata''],
      Call ''omap_register_i2c_bus_board_data'' [I 2, Ref ''sdp4430_i2c_2_bus_pdata''],
      Call ''omap_register_i2c_bus_board_data'' [I 3, Ref ''sdp4430_i2c_3_bus_pdata''],
      Call ''omap_register_i2c_bus_board_data'' [I 4, Ref ''sdp4430_i2c_4_bus_pdata''],
      Call ''omap_register_i2c_bus_board_data'' [I 5, Ref ''sdp4430_i2c_5_bus_pdata''],
      Call ''omap_register_i2c_bus''
        (if CONFIG_OMAP5_SEVM_PALMAS (config E)
         then [I 1, I 400, Ref ''omap5evm_i2c_1_boardinfo'', I 2]
         else [I 1, I 400, Null, I 0]),
      Call ''omap_register_i2c_bus'' [I 2, I 400, Null, I 0],
      Call ''omap_register_i2c_bus'' [I 3, I 400, Null, I 0],
      Call ''omap_register_i2c_bus'' [I 4, I 400, Null, I 0],
      Call ''omap_register_i2c_bus'' [I 5, I 400, Ref ''omap5evm_i2c_5_boardinfo'', I 2]] \<and>
   filter is_log (emitted s (snd (omap_5430evm_i2c_init E s))) =
     on_null (hwspin_lock_request_specific_ret (kernel E) 0)
       (Log KERN_ERR ''I2C hwspinlock request failed for bus %d\<newline>'' [I 1]) @
     on_null (hwspin_lock_request_specific_ret (kernel E) 1)
       (Log KERN_ERR ''I2C hwspinlock request failed for bus %d\<newline>'' [I 2]) @
     on_null (hwspin_lock_request_specific_ret (kernel E) 2)
       (Log KERN_ERR ''I2C hwspinlock request failed for bus %d\<newline>'' [I 3]) @
     on_null (hwspin_lock_request_specific_ret (kernel E) 3)
       (Log KERN_ERR ''I2C hwspinlock request failed for bus %d\<newline>'' [I 4]) @
     on_null (hwspin_lock_request_specific_ret (kernel E) 4)
       (Log KERN_ERR ''I2C hwspinlock request failed for bus %d\<newline>'' [I 5]) \<and>
   map (\<lambda>b. (i2c_type b, i2c_addr b)) (omap5evm_i2c_1_boardinfo (hdr E) (config E)) =
     (if CONFIG_OMAP5_SEVM_PALMAS (config E)
      then [(''twl6035'', 0x48), (''twl6040'', 0x4b)] else [(''twl6040'', 0x4b)]) \<and>
   map (\<lambda>b. (i2c_type b, i2c_addr b)) omap5evm_i2c_5_boardinfo =
     [(''smsc'', 0x38), (''tca6424'', 0x22)]"
  by (simp add: i2c_init_nf i2c_init_events_def i2c_register_calls_def hwspinlock_events_def
      filter_on_null omap5evm_i2c_1_boardinfo_def omap5evm_i2c_5_boardinfo_def)

text \<open>
  C6. On the uEVM path the clock "auxclk1_ck" is looked up once, after the start message, the
  assignments to the statics and the pin multiplexing. If \<open>clk_get\<close> returns an error
  pointer, the failure is logged and that is all: neither \<open>clk_set_rate\<close> nor \<open>clk_enable\<close>
  is called, and the init goes on with the common init from the same statics as after a
  successful lookup. Otherwise the rate of the clock is set to 19200000 and the clock is
  enabled, and nothing is logged about it. In both cases the whole function is: the
  assignments, these events, then the common init; so the events after the clock events
  and the final statics are what the common init makes of them, and the outcome of the
  lookup shows in the clock events alone.
\<close>

theorem uevm_clk_error_handling:
  "omap_5432_uevm_init E s =
     omap54xx_common_init E
       ((uevm_overrides s)
          \<lparr>trace := trace s @
             [Log KERN_INFO ''Starting 5432 uEVM setup'' [],
              Call ''omap_mux_init_array'' [Ref ''omap5432_uevm_mux'', I 18],
              Call ''clk_get'' [Null, S ''auxclk1_ck'']] @
             (if IS_ERR (hdr E) (clk_get_ret (kernel E) ''auxclk1_ck'')
              then [Log KERN_ERR ''Cannot request auxclk1\<newline>'' []]
              else [Call ''clk_set_rate''
                      [P (clk_get_ret (kernel E) ''auxclk1_ck''), I 19200000],
                    Call ''clk_enable'' [P (clk_get_ret (kernel E) ''auxclk1_ck'')]])\<rparr>) \<and>
   emitted s (omap_5432_uevm_init E s) =
     [Log KERN_INFO ''Starting 5432 uEVM setup'' [],
      Call ''omap_mux_init_array'' [Ref ''omap5432_uevm_mux'', I 18],
      Call ''clk_get'' [Null, S ''auxclk1_ck'']] @
     (if IS_ERR (hdr E) (clk_get_ret (kernel E) ''auxclk1_ck'')
      then [Log KERN_ERR ''Cannot request auxclk1\<newline>'' []]
      else [Call ''clk_set_rate'' [P (clk_get_ret (kernel E) ''auxclk1_ck''), I 19200000],
            Call ''clk_enable'' [P (clk_get_ret (kernel E) ''auxclk1_ck'')]]) @
     common_init_events E 14 (omap5_sdp5430_wlan_data s) \<and>
   (omap_5432_uevm_init E s)\<lparr>trace := []\<rparr> =
     (common_init_statics E (uevm_overrides s))\<lparr>trace := []\<rparr> \<and>
   filter clk_related (emitted s (omap_5432_uevm_init E s)) =
     (if IS_ERR (hdr E) (clk_get_ret (kernel E) ''auxclk1_ck'')
      then [Call ''clk_get'' [Null, S ''auxclk1_ck''],
            Log KERN_ERR ''Cannot request auxclk1\<newline>'' []]
      else [Call ''clk_get'' [Null, S ''auxclk1_ck''],
            Call ''clk_set_rate'' [P (clk_get_ret (kernel E) ''auxclk1_ck''), I 19200000],
            Call ''clk_enable'' [P (clk_get_ret (kernel E) ''auxclk1_ck'')]])"
proof -
  have whole: "omap_5432_uevm_init E s =
     omap54xx_common_init E
       ((uevm_overrides s)
          \<lparr>trace := trace s @
             [Log KERN_INFO ''Starting 5432 uEVM setup'' [],
              Call ''omap_mux_init_array'' [Ref ''omap5432_uevm_mux'', I 18],
              Call ''clk_get'' [Null, S ''auxclk1_ck'']] @
             (if IS_ERR (hdr E) (clk_get_ret (kernel E) ''auxclk1_ck'')
              then [Log KERN_ERR ''Cannot request auxclk1\<newline>'' []]
              else [Call ''clk_set_rate''
                      [P (clk_get_ret (kernel E) ''auxclk1_ck''), I 19200000],
                    Call ''clk_enable'' [P (clk_get_ret (kernel E) ''auxclk1_ck'')]])\<rparr>)"
    by (cases s; cases "IS_ERR (hdr E) (clk_get_ret (kernel E) ''auxclk1_ck'')")
       (simp_all add: omap_5432_uevm_init_def clk_get_def call_nf pr_info_def pr_err_def
          log_nf Let_def ARRAY_SIZE_def omap5432_uevm_mux_def GPIO_HUB_NRESET_UEVM_def
          GPIO_ETH_NRESET_UEVM_def uevm_overrides_def)
  have events: "emitted s (omap_5432_uevm_init E s) =
     [Log KERN_INFO ''Starting 5432 uEVM setup'' [],
      Call ''omap_mux_init_array'' [Ref ''omap5432_uevm_mux'', I 18],
      Call ''clk_get'' [Null, S ''auxclk1_ck'']] @
     (if IS_ERR (hdr E) (clk_get_ret (kernel E) ''auxclk1_ck'')
      then [Log KERN_ERR ''Cannot request auxclk1\<newline>'' []]
      else [Call ''clk_set_rate'' [P (clk_get_ret (kernel E) ''auxclk1_ck''), I 19200000],
            Call ''clk_enable'' [P (clk_get_ret (kernel E) ''auxclk1_ck'')]]) @
     common_init_events E 14 (omap5_sdp5430_wlan_data s)"
    by (simp add: uevm_init_nf uevm_init_events_def clk_events_def)
  have statics: "(omap_5432_uevm_init E s)\<lparr>trace := []\<rparr> =
     (common_init_statics E (uevm_overrides s))\<lparr>trace := []\<rparr>"
    by (simp add: uevm_init_nf)
  have clk: "filter clk_related (emitted s (omap_5432_uevm_init E s)) =
     (if IS_ERR (hdr E) (clk_get_ret (kernel E) ''auxclk1_ck'')
      then [Call ''clk_get'' [Null, S ''auxclk1_ck''],
            Log KERN_ERR ''Cannot request auxclk1\<newline>'' []]
      else [Call ''clk_get'' [Null, S ''auxclk1_ck''],
            Call ''clk_set_rate'' [P (clk_get_ret (kernel E) ''auxclk1_ck''), I 19200000],
            Call ''clk_enable'' [P (clk_get_ret (kernel E) ''auxclk1_ck'')]])"
    by (cases "CONFIG_WL12XX_PLATFORM_DATA (config E)")
       (simp_all add: uevm_init_nf events_defs filter_on_failure filter_on_null)
  from whole events statics clk show ?thesis by blast
qed

text \<open>
  C7. Every entry of \<open>palmas_omap5_reg\<close> that is not \<open>NULL\<close> (there are 18), and the WLAN
  supply \<open>sdp5430_vmmc3\<close>, has \<open>min_uV \<le> max_uV\<close>, and its \<open>valid_ops_mask\<close> contains
  \<open>REGULATOR_CHANGE_VOLTAGE\<close> if and only if \<open>min_uV < max_uV\<close>.
\<close>

theorem regulator_constraints_invariant:
  assumes "change_ops_distinct H"
  shows "list_all (regulator_ok H) (palmas_regulators H @ [sdp5430_vmmc3 H]) \<and>
         length (palmas_regulators H) = 18"
  using assms
  by (simp add: change_ops_distinct_def palmas_regulators_def palmas_omap5_reg_def
      regulator_ok_def regulator_defs contains_op_with
      contains_op_without contains_op_single)

theorem regulator_constraints_invariant_witness:
  "change_ops_distinct sample_hdr \<and>
   list_all (regulator_ok sample_hdr) (palmas_regulators sample_hdr @ [sdp5430_vmmc3 sample_hdr]) \<and>
   length (palmas_regulators sample_hdr) = 18"
proof -
  have h: "change_ops_distinct sample_hdr"
    by (simp add: change_ops_distinct_def sample_hdr_def)
  show ?thesis using h regulator_constraints_invariant [OF h] by simp
qed

text \<open>
  C8. \<open>omap_i2c_hwspinlock_init\<close> makes one call: the generic lock request if the lock id is
  negative, the request of that lock otherwise. The handle it gets is stored. If the handle
  is not null, the two callbacks are installed and nothing is logged. If it is null, one
  error message with the bus number is logged and the structure is as before except for its
  null handle. No static of the board is written.
\<close>

theorem hwspinlock_init_effect:
  "filter is_call (emitted s (snd (omap_i2c_hwspinlock_init E bus_id spinlock_id pdata s))) =
     [if spinlock_id < 0 then Call ''hwspin_lock_request'' []
      else Call ''hwspin_lock_request_specific'' [I spinlock_id]] \<and>
   fst (omap_i2c_hwspinlock_init E bus_id spinlock_id pdata s) =
     (if requested_handle E spinlock_id \<noteq> NULL
      then pdata\<lparr>handle := requested_handle E spinlock_id,
                 hwspin_lock_timeout := Ref ''hwspin_lock_timeout'',
                 hwspin_unlock := Ref ''hwspin_unlock''\<rparr>
      else pdata\<lparr>handle := NULL\<rparr>) \<and>
   filter is_log (emitted s (snd (omap_i2c_hwspinlock_init E bus_id spinlock_id pdata s))) =
     on_null (requested_handle E spinlock_id)
       (Log KERN_ERR ''I2C hwspinlock request failed for bus %d\<newline>'' [I bus_id]) \<and>
   (snd (omap_i2c_hwspinlock_init E bus_id spinlock_id pdata s))\<lparr>trace := trace s\<rparr> = s"
  by (simp add: omap_i2c_hwspinlock_init_def hwspin_lock_request_def
      hwspin_lock_request_specific_def call_nf pr_err_def log_nf requested_handle_def
      on_null_def emitted_def)

text \<open>
  C9. The declared sizes agree with the tables: the keypad of the EVM has 8 rows, 8 columns
  and a keymap of 64 entries; the smsc keypad has 8 rows, 16 columns and a keymap of 128
  entries; \<open>num_leds\<close> is the number of LEDs, 6; \<open>num_devices\<close> is the number of display
  devices, 2, and the default device is one of them.
\<close>

theorem table_sizes_consistent:
  "kp4_rows evm5430_keypad_data = 8 \<and> kp4_cols evm5430_keypad_data = 8 \<and>
   keymap (kp4_keymap_data evm5430_keypad_data) = evm5430_keymap \<and>
   keymap_size (kp4_keymap_data evm5430_keypad_data) = 64 \<and>
   length evm5430_keymap = 8 * 8 \<and>
   rows omap5_kp_data = 8 \<and> cols omap5_kp_data = 16 \<and>
   keymap (keymap_data omap5_kp_data) = board_keymap \<and>
   keymap_size (keymap_data omap5_kp_data) = 128 \<and>
   length board_keymap = 8 * 16 \<and>
   leds gpio_led_info = gpio_leds \<and>
   num_leds gpio_led_info = int (length gpio_leds) \<and> length gpio_leds = 6 \<and>
   devices omap5evm_dss_data = omap5evm_dss_devices \<and>
   num_devices omap5evm_dss_data = int (length omap5evm_dss_devices) \<and>
   length omap5evm_dss_devices = 2 \<and>
   default_device omap5evm_dss_data \<in> set omap5evm_dss_devices"
  by (simp add: evm5430_keypad_data_def evm5430_keymap_data_def evm5430_keymap_def
      omap5_kp_data_def board_map_data_def board_keymap_def gpio_led_info_def gpio_leds_def
      omap5evm_dss_data_def omap5evm_dss_devices_def ARRAY_SIZE_def)

end
